theory Spec2Isabelle
  imports Main "HOL-Library.Word"
begin

section \<open>The events endpoint of the OpenSea wrapper\<close>

text \<open>
  A shallow embedding of \<^verbatim>\<open>open_sea_v1/endpoints/endpoint_events.py\<close>: the two
  string enums, the dataclass \<^verbatim>\<open>_EventsEndpoint\<close> with its construction-time
  validation, the request it issues and the parsing of the response.
\<close>

subsection \<open>Python values\<close>

text \<open>
  The dataclass does not enforce its annotations, so a field may hold any Python value.
  The universe below has the kinds of value the checks tell apart: \<^verbatim>\<open>None\<close>,
  booleans, integers, floats (by their IEEE-754 bits), plain strings, the members of the
  two enums and datetimes.

  A datetime is kept as what Python's comparison of datetimes reads of it. That is its
  wall-clock reading, the fields from year to microsecond as one count of microseconds,
  and its \<^verbatim>\<open>tzinfo\<close> attribute, \<^verbatim>\<open>None\<close> for a naive datetime. Of a
  \<^verbatim>\<open>tzinfo\<close> object the comparison uses the identity (it tests
  \<^verbatim>\<open>is\<close>) and two answers of \<^verbatim>\<open>utcoffset\<close>, in microseconds or
  \<^verbatim>\<open>None\<close>: the one for the datetime as it is, with its \<^verbatim>\<open>fold\<close>,
  and the one for the same reading with \<^verbatim>\<open>fold\<close> flipped.
\<close>

datatype EventType =
  CREATED | SUCCESSFUL | CANCELLED | BID_ENTERED | BID_WITHDRAWN | TRANSFER | APPROVE

datatype AuctionType = ENGLISH | DUTCH | MIN_PRICE

datatype tzinfo =
  Tzinfo (tz_id: nat) (tz_utcoffset: "int option") (tz_flip_fold_utcoffset: "int option")

datatype datetime = Datetime (wall: int) (tzinfo: "tzinfo option")

abbreviation Naive :: "int \<Rightarrow> datetime" where
  "Naive t \<equiv> Datetime t None"

datatype pyval =
  PNone
| PBool bool
| PInt int
| PFloat "64 word"
| PStr string
| PEventType EventType
| PAuctionType AuctionType
| PDatetime datetime

datatype pytype =
  NoneType | BoolT | IntT | FloatT | StrT | EventTypeT | AuctionTypeT | DatetimeT

fun type_of :: "pyval \<Rightarrow> pytype" where
  "type_of PNone = NoneType"
| "type_of (PBool _) = BoolT"
| "type_of (PInt _) = IntT"
| "type_of (PFloat _) = FloatT"
| "type_of (PStr _) = StrT"
| "type_of (PEventType _) = EventTypeT"
| "type_of (PAuctionType _) = AuctionTypeT"
| "type_of (PDatetime _) = DatetimeT"

text \<open>The \<^verbatim>\<open>.value\<close> of each enum member, as the class bodies give them.\<close>

fun EventType_value :: "EventType \<Rightarrow> string" where
  "EventType_value CREATED = ''created''"
| "EventType_value SUCCESSFUL = ''successful''"
| "EventType_value CANCELLED = ''cancelled''"
| "EventType_value BID_ENTERED = ''bid_entered''"
| "EventType_value BID_WITHDRAWN = ''bid_withdrawn''"
| "EventType_value TRANSFER = ''transfer''"
| "EventType_value APPROVE = ''approve''"

fun AuctionType_value :: "AuctionType \<Rightarrow> string" where
  "AuctionType_value ENGLISH = ''english''"
| "AuctionType_value DUTCH = ''dutch''"
| "AuctionType_value MIN_PRICE = ''min-price''"

text \<open>
  Modelled from the spec: \<^verbatim>\<open>ExtendedStrEnum\<close> (module
  \<^verbatim>\<open>helpers.extended_classes\<close>) is not among the sources. The spec describes its
  \<^verbatim>\<open>list()\<close> as the "list of valid values" query used by validation, and the enum
  as string-valued; so \<^verbatim>\<open>list()\<close> is the list of the members' values in
  definition order, and a member is a \<^verbatim>\<open>str\<close> that equals its value.
\<close>

definition EventType_list :: "string list" where
  "EventType_list = map EventType_value
     [CREATED, SUCCESSFUL, CANCELLED, BID_ENTERED, BID_WITHDRAWN, TRANSFER, APPROVE]"

definition AuctionType_list :: "string list" where
  "AuctionType_list = map AuctionType_value [ENGLISH, DUTCH, MIN_PRICE]"

text \<open>
  The string a string-like value is: a plain string is itself, a member of either enum is
  its value. Anything else is no string.
\<close>

fun str_value :: "pyval \<Rightarrow> string option" where
  "str_value (PStr s) = Some s"
| "str_value (PEventType e) = Some (EventType_value e)"
| "str_value (PAuctionType a) = Some (AuctionType_value a)"
| "str_value _ = None"

text \<open>
  \<^verbatim>\<open>isinstance(v, (str, EventType))\<close> and
  \<^verbatim>\<open>isinstance(v, (str, AuctionType))\<close>: both enums derive from \<^verbatim>\<open>str\<close>,
  so either test holds exactly for the strings and the members of the two enums.
\<close>

definition isinstance_str :: "pyval \<Rightarrow> bool" where
  "isinstance_str v = (str_value v \<noteq> None)"

text \<open>\<^verbatim>\<open>isinstance(v, (type(None), datetime))\<close>.\<close>

fun isinstance_none_or_datetime :: "pyval \<Rightarrow> bool" where
  "isinstance_none_or_datetime PNone = True"
| "isinstance_none_or_datetime (PDatetime _) = True"
| "isinstance_none_or_datetime _ = False"

text \<open>
  \<^verbatim>\<open>v in xs\<close> for a list of strings: some element equals \<^verbatim>\<open>v\<close>, which only a
  string-like value with that content does.
\<close>

definition py_in :: "pyval \<Rightarrow> string list \<Rightarrow> bool" where
  "py_in v xs = (case str_value v of None \<Rightarrow> False | Some s \<Rightarrow> s \<in> set xs)"

text \<open>Truth value of an object, as \<^verbatim>\<open>if v and w\<close> tests it.\<close>

fun truthy :: "pyval \<Rightarrow> bool" where
  "truthy PNone = False"
| "truthy (PBool b) = b"
| "truthy (PInt i) = (i \<noteq> 0)"
| "truthy (PFloat w) = (take_bit 63 w \<noteq> 0)"
| "truthy (PStr s) = (s \<noteq> [])"
| "truthy (PEventType e) = (EventType_value e \<noteq> [])"
| "truthy (PAuctionType a) = (AuctionType_value a \<noteq> [])"
| "truthy (PDatetime _) = True"

subsection \<open>Exceptions\<close>

text \<open>
  An exception is its class and its \<^verbatim>\<open>args\<close>. The second argument of every
  \<^verbatim>\<open>raise\<close> of the module is an f-string of the form \<^verbatim>\<open>f"{expr=}"\<close>, which
  prints the expression's text and the \<^verbatim>\<open>repr\<close> of its value; it is kept here as
  the list of those pairs, the printed object being a value (\<open>Repr\<close>) or the type of a
  value (\<open>ReprType\<close>).
\<close>

datatype shown = Repr pyval | ReprType pytype

datatype arg = Text string | Debug "(string \<times> shown) list"

datatype error =
  TypeError "arg list"
| ValueError "arg list"
| AttributeError "arg list"
| KeyError "arg list"
| JSONDecodeError
| TransportError

text \<open>The two kinds of error the spec speaks of.\<close>

fun is_TypeKind :: "error \<Rightarrow> bool" where
  "is_TypeKind (TypeError _) = True"
| "is_TypeKind _ = False"

fun is_ValueKind :: "error \<Rightarrow> bool" where
  "is_ValueKind (ValueError _) = True"
| "is_ValueKind _ = False"

text \<open>
  \<^verbatim>\<open>a == b\<close> and \<^verbatim>\<open>a < b\<close> on datetimes, as the standard library
  compares them. Two datetimes with the very same \<^verbatim>\<open>tzinfo\<close> (two naive ones
  among them) are compared by their wall-clock readings, \<^verbatim>\<open>fold\<close> ignored.
  Otherwise the UTC offsets are taken: with equal offsets (both \<^verbatim>\<open>None\<close> among
  them) the readings are compared, with two different offsets the readings less their
  offsets, and with one offset \<^verbatim>\<open>None\<close> and the other not, \<^verbatim>\<open>==\<close> is
  false and \<^verbatim>\<open><\<close> raises \<^verbatim>\<open>TypeError\<close>. Across different
  \<^verbatim>\<open>tzinfo\<close> objects \<^verbatim>\<open>==\<close> is false as well whenever flipping
  \<^verbatim>\<open>fold\<close> changes the offset of either side.
\<close>

fun utcoffset :: "datetime \<Rightarrow> int option" where
  "utcoffset (Datetime w None) = None"
| "utcoffset (Datetime w (Some z)) = tz_utcoffset z"

fun flip_fold_utcoffset :: "datetime \<Rightarrow> int option" where
  "flip_fold_utcoffset (Datetime w None) = None"
| "flip_fold_utcoffset (Datetime w (Some z)) = tz_flip_fold_utcoffset z"

definition same_tzinfo :: "datetime \<Rightarrow> datetime \<Rightarrow> bool" where
  "same_tzinfo a b = (map_option tz_id (tzinfo a) = map_option tz_id (tzinfo b))"

definition pep495_eq_exception :: "datetime \<Rightarrow> datetime \<Rightarrow> bool" where
  "pep495_eq_exception a b =
     (flip_fold_utcoffset a \<noteq> utcoffset a \<or> flip_fold_utcoffset b \<noteq> utcoffset b)"

definition datetime_eq :: "datetime \<Rightarrow> datetime \<Rightarrow> bool" where
  "datetime_eq a b =
     (if same_tzinfo a b then wall a = wall b
      else if utcoffset a = utcoffset b
        then wall a = wall b \<and> \<not> pep495_eq_exception a b
      else (case (utcoffset a, utcoffset b) of
              (Some offset_a, Some offset_b) \<Rightarrow>
                wall a - offset_a = wall b - offset_b \<and> \<not> pep495_eq_exception a b
            | _ \<Rightarrow> False))"

definition datetime_lt :: "datetime \<Rightarrow> datetime \<Rightarrow> error + bool" where
  "datetime_lt a b =
     (if same_tzinfo a b then Inr (wall a < wall b)
      else if utcoffset a = utcoffset b then Inr (wall a < wall b)
      else (case (utcoffset a, utcoffset b) of
              (Some offset_a, Some offset_b) \<Rightarrow> Inr (wall a - offset_a < wall b - offset_b)
            | _ \<Rightarrow>
                Inl (TypeError
                  [Text ''can't compare offset-naive and offset-aware datetimes''])))"

text \<open>
  A datetime is aware when it has a UTC offset, and its instant is then its reading less
  the offset; the instant of a naive datetime is its reading. The comparison above goes
  by instants for two naive datetimes and for two aware ones, unless these share their
  \<^verbatim>\<open>tzinfo\<close> object and differ in offset.
\<close>

definition aware :: "datetime \<Rightarrow> bool" where
  "aware d = (utcoffset d \<noteq> None)"

definition instant :: "datetime \<Rightarrow> int" where
  "instant d = (case utcoffset d of None \<Rightarrow> wall d | Some off \<Rightarrow> wall d - off)"

definition compared_by_instant :: "datetime \<Rightarrow> datetime \<Rightarrow> bool" where
  "compared_by_instant a b =
     (aware a = aware b \<and> (utcoffset a = utcoffset b \<or> \<not> same_tzinfo a b))"

text \<open>
  Four datetimes of one \<^verbatim>\<open>tzinfo\<close> object for New York, with readings counted
  from midnight of their day. The first two are 01:30 on the day the clocks go back, in
  daylight time (\<^verbatim>\<open>fold=0\<close>, four hours behind UTC) and, one hour later, in
  standard time (\<^verbatim>\<open>fold=1\<close>, five hours behind). The last two are on the day the
  clocks go forward: 02:30, a reading the clocks skip and that \<^verbatim>\<open>fold=0\<close> places
  five hours behind UTC, and 03:10 daylight time, twenty minutes before it.
\<close>

definition new_york_0130_fold0 :: datetime where
  "new_york_0130_fold0 =
     Datetime 5400000000 (Some (Tzinfo 1 (Some (- 14400000000)) (Some (- 18000000000))))"

definition new_york_0130_fold1 :: datetime where
  "new_york_0130_fold1 =
     Datetime 5400000000 (Some (Tzinfo 1 (Some (- 18000000000)) (Some (- 14400000000))))"

definition new_york_0230_gap :: datetime where
  "new_york_0230_gap =
     Datetime 9000000000 (Some (Tzinfo 1 (Some (- 18000000000)) (Some (- 14400000000))))"

definition new_york_0310 :: datetime where
  "new_york_0310 =
     Datetime 11400000000 (Some (Tzinfo 1 (Some (- 14400000000)) (Some (- 14400000000))))"

subsection \<open>The endpoint object\<close>

text \<open>
  A decoded JSON value; an object is the list of its items, in order.
\<close>

datatype json =
  JNull | JBool bool | JNum int | JStr string | JArr "json list" | JObj "(string \<times> json) list"

text \<open>
  A \<^verbatim>\<open>requests.Response\<close>, as far as the endpoint reads it: what its
  \<^verbatim>\<open>json()\<close> method gives, the decoded body or the decoding error.
\<close>

record response =
  json_result :: "error + json"

record client_params =
  offset :: int
  limit :: int

text \<open>
  The fields of the dataclass, with their defaults in \<open>default_fields\<close>, and the
  attribute \<^verbatim>\<open>_http_response\<close> that \<^verbatim>\<open>_get_request\<close> sets (absent on a new
  object).
\<close>

record events_endpoint =
  client_params :: "client_params option"
  asset_contract_address :: pyval
  token_id :: pyval
  collection_slug :: pyval
  account_address :: pyval
  occurred_before :: pyval
  occurred_after :: pyval
  event_type :: pyval
  auction_type :: pyval
  only_opensea :: pyval
  http_response :: "response option"

definition default_fields :: events_endpoint where
  "default_fields = \<lparr>
     client_params = None,
     asset_contract_address = PNone,
     token_id = PNone,
     collection_slug = PNone,
     account_address = PNone,
     occurred_before = PNone,
     occurred_after = PNone,
     event_type = PNone,
     auction_type = PNone,
     only_opensea = PBool False,
     http_response = None \<rparr>"

subsection \<open>Validation\<close>

text \<open>
  A method that validates returns \<^verbatim>\<open>None\<close> or raises. Its model gives the
  outcome (\<open>Inr ()\<close> for the return, \<open>Inl e\<close> for the exception \<open>e\<close>) and,
  before it, the validation methods that were entered while it ran, in the order of the
  calls.
\<close>

datatype validator =
  Validate_param_auction_type
| Validate_param_event_type
| Validate_params_occurred_before_and_occurred_after
| Validate_param_occurred_before
| Validate_param_occurred_after
| Assert_param_occurred_before_after_cannot_be_same_value
| Assert_param_occurred_before_cannot_be_higher_than_occurred_after

type_synonym run = "validator list \<times> (error + unit)"

definition returns :: run where
  "returns = ([], Inr ())"

definition raise :: "error \<Rightarrow> run" where
  "raise e = ([], Inl e)"

text \<open>
  Two statements in sequence: an exception of the first leaves the method, and the second
  is not evaluated.
\<close>

definition and_then :: "run \<Rightarrow> run \<Rightarrow> run" where
  "and_then r s = (case snd r of Inl e \<Rightarrow> r | Inr _ \<Rightarrow> (fst r @ fst s, snd s))"

text \<open>Entering the method \<open>m\<close>, whose body runs as \<open>body\<close>.\<close>

definition call :: "validator \<Rightarrow> run \<Rightarrow> run" where
  "call m body = (m # fst body, snd body)"

definition validate_param_event_type :: "events_endpoint \<Rightarrow> run" where
  "validate_param_event_type self =
     call Validate_param_event_type
       (and_then
          (if \<not> isinstance_str (event_type self)
           then raise (TypeError
                  [Text ''Invalid event_type type. Must be str or EventType Enum.'',
                   Debug [(''self.event_type'', Repr (event_type self))]])
           else returns)
          (if \<not> py_in (event_type self) EventType_list
           then raise (ValueError
                  [Text ''Invalid event_type value. Must be str value from EventType Enum.'',
                   Debug [(''self.event_type'', Repr (event_type self))]])
           else returns))"

definition validate_param_auction_type :: "events_endpoint \<Rightarrow> run" where
  "validate_param_auction_type self =
     call Validate_param_auction_type
       (if auction_type self = PNone then returns
        else and_then
          (if \<not> isinstance_str (auction_type self)
           then raise (TypeError
                  [Text ''Invalid auction_type type. Must be str or AuctionType Enum.'',
                   Debug [(''self.auction_type'', Repr (auction_type self))]])
           else returns)
          (if \<not> py_in (auction_type self) AuctionType_list
           then raise (ValueError
                  [Text ''Invalid auction_type value. Must be str value from AuctionType Enum.'',
                   Debug [(''self.auction_type'', Repr (auction_type self))]])
           else returns))"

definition validate_param_occurred_before :: "events_endpoint \<Rightarrow> run" where
  "validate_param_occurred_before self =
     call Validate_param_occurred_before
       (if \<not> isinstance_none_or_datetime (occurred_before self)
        then raise (TypeError
               [Text ''Invalid occurred_before type. Must be instance of datetime.'',
                Debug [(''type(self.occurred_before)'',
                        ReprType (type_of (occurred_before self)))]])
        else returns)"

definition validate_param_occurred_after :: "events_endpoint \<Rightarrow> run" where
  "validate_param_occurred_after self =
     call Validate_param_occurred_after
       (if \<not> isinstance_none_or_datetime (occurred_after self)
        then raise (TypeError
               [Text ''Invalid occurred_after type. Must be instance of datetime.'',
                Debug [(''type(self.occurred_after)'',
                        ReprType (type_of (occurred_after self)))]])
        else returns)"

text \<open>
  The two assertions on the pair are only called with both values datetimes (see below);
  they take them as \<open>after\<close> and \<open>before\<close>. In the second one the comparison
  \<^verbatim>\<open>self.occurred_after < self.occurred_before\<close> may raise by itself.
\<close>

definition assert_param_occurred_before_after_cannot_be_same_value ::
    "datetime \<Rightarrow> datetime \<Rightarrow> run" where
  "assert_param_occurred_before_after_cannot_be_same_value after before =
     call Assert_param_occurred_before_after_cannot_be_same_value
       (if datetime_eq after before
        then raise (ValueError
               [Text ''Params occurred_after and occurred_before may not have the same value.'',
                Debug [(''self.occurred_before'', Repr (PDatetime before)),
                       (''self.occurred_after'', Repr (PDatetime after))]])
        else returns)"

definition assert_param_occurred_before_cannot_be_higher_than_occurred_after ::
    "datetime \<Rightarrow> datetime \<Rightarrow> run" where
  "assert_param_occurred_before_cannot_be_higher_than_occurred_after after before =
     call Assert_param_occurred_before_cannot_be_higher_than_occurred_after
       (case datetime_lt after before of
          Inl e \<Rightarrow> raise e
        | Inr lower \<Rightarrow>
            if \<not> lower
            then raise (ValueError
                   [Text ''Param occurred_before cannot be higher than param occurred_after.'',
                    Debug [(''self.occurred_before'', Repr (PDatetime before)),
                           (''self.occurred_after'', Repr (PDatetime after))]])
            else returns)"

text \<open>
  The guard \<^verbatim>\<open>if self.occurred_after and self.occurred_before\<close> is reached only when
  both type checks have passed. Each value is then \<^verbatim>\<open>None\<close>, which is false, or a
  datetime, which is true (lemma \<open>occurred_guard\<close>): the guard holds exactly when both are
  datetimes, which is how the model tests it.
\<close>

definition validate_params_occurred_before_and_occurred_after :: "events_endpoint \<Rightarrow> run" where
  "validate_params_occurred_before_and_occurred_after self =
     call Validate_params_occurred_before_and_occurred_after
       (and_then (validate_param_occurred_before self)
       (and_then (validate_param_occurred_after self)
          (case (occurred_after self, occurred_before self) of
             (PDatetime after, PDatetime before) \<Rightarrow>
               and_then
                 (assert_param_occurred_before_after_cannot_be_same_value after before)
                 (assert_param_occurred_before_cannot_be_higher_than_occurred_after after before)
           | _ \<Rightarrow> returns)))"

definition validate_request_params :: "events_endpoint \<Rightarrow> run" where
  "validate_request_params self =
     and_then (validate_param_auction_type self)
    (and_then (validate_param_event_type self)
       (validate_params_occurred_before_and_occurred_after self))"

definition post_init :: "events_endpoint \<Rightarrow> run" where
  "post_init self = validate_request_params self"

text \<open>
  Construction: the generated \<^verbatim>\<open>__init__\<close> stores the fields and calls
  \<^verbatim>\<open>__post_init__\<close>; an exception there leaves the constructor, and the caller gets
  no object.
\<close>

definition new_events_endpoint :: "events_endpoint \<Rightarrow> error + events_endpoint" where
  "new_events_endpoint kwargs =
     (let self = kwargs\<lparr>http_response := None\<rparr>
      in case snd (post_init self) of Inl e \<Rightarrow> Inl e | Inr _ \<Rightarrow> Inr self)"

subsection \<open>The request\<close>

type_synonym params = "(string \<times> pyval) list"

type_synonym server = "string \<Rightarrow> params \<Rightarrow> error + response"

type_synonym http_log = "(string \<times> params) list"

text \<open>
  \<^verbatim>\<open>OpenseaApiEndpoints.EVENTS.value\<close> is defined outside the sources at hand; the
  address is a parameter, \<open>events_url\<close>.
\<close>

definition url :: "string \<Rightarrow> events_endpoint \<Rightarrow> string" where
  "url events_url self = events_url"

text \<open>
  Modelled from the spec: \<^verbatim>\<open>BaseOpenSeaClient._get_request\<close>, which
  \<^verbatim>\<open>super()._get_request(params=params)\<close> calls, is not among the sources. The spec
  gives it as the transport capability \<^verbatim>\<open>perform_get(url, params) -> response\<close>
  that makes exactly one HTTP call per invocation and lets transport errors propagate.
  The log records the GET requests sent, in order; \<open>server\<close> is what the remote side
  answers.
\<close>

definition base_get_request ::
    "server \<Rightarrow> string \<Rightarrow> params \<Rightarrow> http_log \<Rightarrow> (error + response) \<times> http_log" where
  "base_get_request server u ps log = (server u ps, log @ [(u, ps)])"

text \<open>
  \<^verbatim>\<open>_get_request\<close>: reading \<^verbatim>\<open>self.client_params.offset\<close> raises
  \<^verbatim>\<open>AttributeError\<close> when \<^verbatim>\<open>client_params\<close> is still its default
  \<^verbatim>\<open>None\<close>; otherwise the dictionary is built (in this order of keys), the request
  is sent, and the response is stored on the object and returned.
\<close>

definition get_request ::
    "server \<Rightarrow> string \<Rightarrow> events_endpoint \<Rightarrow> http_log
      \<Rightarrow> (error + events_endpoint \<times> response) \<times> http_log" where
  "get_request server events_url self log =
     (case client_params self of
        None \<Rightarrow> (Inl (AttributeError [Text ''NoneType object has no attribute offset'']), log)
      | Some cp \<Rightarrow>
          (let params =
                 [(''offset'', PInt (offset cp)),
                  (''limit'', PInt (limit cp)),
                  (''asset_contract_address'', asset_contract_address self),
                  (''event_type'', event_type self),
                  (''only_opensea'', only_opensea self),
                  (''collection_slug'', collection_slug self),
                  (''token_id'', token_id self),
                  (''account_address'', account_address self),
                  (''auction_type'', auction_type self),
                  (''occurred_before'', occurred_before self),
                  (''occurred_after'', occurred_after self)]
           in case base_get_request server (url events_url self) params log of
                (Inl e, log') \<Rightarrow> (Inl e, log')
              | (Inr r, log') \<Rightarrow> (Inr (self\<lparr>http_response := Some r\<rparr>, r), log')))"

text \<open>
  The life of one object, as the callers of the class go through it: construct, then
  issue the request.
\<close>

definition create_and_get ::
    "server \<Rightarrow> string \<Rightarrow> events_endpoint \<Rightarrow> http_log
      \<Rightarrow> (error + events_endpoint \<times> response) \<times> http_log" where
  "create_and_get server events_url kwargs log =
     (case new_events_endpoint kwargs of
        Inl e \<Rightarrow> (Inl e, log)
      | Inr endpoint \<Rightarrow> get_request server events_url endpoint log)"

subsection \<open>The response\<close>

text \<open>\<^verbatim>\<open>body['asset_events']\<close> on a decoded JSON value.\<close>

fun getitem :: "json \<Rightarrow> string \<Rightarrow> error + json" where
  "getitem (JObj kvs) k =
     (case map_of kvs k of None \<Rightarrow> Inl (KeyError [Text k]) | Some v \<Rightarrow> Inr v)"
| "getitem (JArr _) k = Inl (TypeError [Text ''list indices must be integers or slices, not str''])"
| "getitem (JStr _) k = Inl (TypeError [Text ''string indices must be integers, not str''])"
| "getitem _ k = Inl (TypeError [Text ''object is not subscriptable''])"

text \<open>
  \<^verbatim>\<open>for event in events_json\<close>: a list gives its elements in order; a dictionary
  gives its keys and a string its characters; anything else is not iterable.
\<close>

fun iterate :: "json \<Rightarrow> error + json list" where
  "iterate (JArr xs) = Inr xs"
| "iterate (JObj kvs) = Inr (map (\<lambda>kv. JStr (fst kv)) kvs)"
| "iterate (JStr s) = Inr (map (\<lambda>c. JStr [c]) s)"
| "iterate _ = Inl (TypeError [Text ''object is not iterable''])"

text \<open>
  \<^verbatim>\<open>parsed_http_response\<close>. The class \<^verbatim>\<open>EventResponse\<close> is defined outside
  the sources at hand; its constructor is the parameter \<open>EventResponse\<close>.
\<close>

definition parsed_http_response ::
    "(json \<Rightarrow> 'e) \<Rightarrow> events_endpoint \<Rightarrow> error + 'e list" where
  "parsed_http_response EventResponse self =
     (case http_response self of
        None \<Rightarrow> Inl (AttributeError [Text ''object has no attribute _http_response''])
      | Some r \<Rightarrow>
          (case json_result r of
             Inl e \<Rightarrow> Inl e
           | Inr body \<Rightarrow>
               (case getitem body ''asset_events'' of
                  Inl e \<Rightarrow> Inl e
                | Inr events_json \<Rightarrow>
                    (case iterate events_json of
                       Inl e \<Rightarrow> Inl e
                     | Inr events \<Rightarrow> Inr (map EventResponse events)))))"

subsection \<open>The validation rules in words\<close>

text \<open>
  The rules as the specification words them, one definition for each, written from its
  sentences and not from the code: the auction type is absent or a string-like member of
  the AuctionType values; the event type is a string-like member of the EventType values;
  \<^verbatim>\<open>occurred_before\<close> and \<^verbatim>\<open>occurred_after\<close> are each absent or a
  datetime; and, when both are datetimes, \<^verbatim>\<open>occurred_after\<close> is strictly
  earlier than \<^verbatim>\<open>occurred_before\<close>. One datetime is strictly earlier than
  another when both are naive or both aware and its instant is the smaller.
\<close>

definition strictly_earlier :: "datetime \<Rightarrow> datetime \<Rightarrow> bool" where
  "strictly_earlier a b = (aware a = aware b \<and> instant a < instant b)"

definition rule_auction_type :: "pyval \<Rightarrow> bool" where
  "rule_auction_type v =
     (v = PNone \<or>
      (case str_value v of
         None \<Rightarrow> False
       | Some s \<Rightarrow> s \<in> {''english'', ''dutch'', ''min-price''}))"

definition rule_event_type :: "pyval \<Rightarrow> bool" where
  "rule_event_type v =
     (case str_value v of
        None \<Rightarrow> False
      | Some s \<Rightarrow> s \<in> {''created'', ''successful'', ''cancelled'', ''bid_entered'',
                      ''bid_withdrawn'', ''transfer'', ''approve''})"

definition rule_timestamp :: "pyval \<Rightarrow> bool" where
  "rule_timestamp v = (v = PNone \<or> type_of v = DatetimeT)"

definition rule_order :: "pyval \<Rightarrow> pyval \<Rightarrow> bool" where
  "rule_order after before =
     (case (after, before) of
        (PDatetime a, PDatetime b) \<Rightarrow> strictly_earlier a b
      | _ \<Rightarrow> True)"

definition validation_rules_hold :: "events_endpoint \<Rightarrow> bool" where
  "validation_rules_hold q =
     (rule_auction_type (auction_type q)
      \<and> rule_event_type (event_type q)
      \<and> rule_timestamp (occurred_before q)
      \<and> rule_timestamp (occurred_after q)
      \<and> rule_order (occurred_after q) (occurred_before q))"

text \<open>
  The same rules with the last one read as the comparison of the language: when both are
  datetimes, \<^verbatim>\<open>occurred_after < occurred_before\<close> is true.
\<close>

definition rule_less_than :: "pyval \<Rightarrow> pyval \<Rightarrow> bool" where
  "rule_less_than after before =
     (case (after, before) of
        (PDatetime a, PDatetime b) \<Rightarrow> datetime_lt a b = Inr True
      | _ \<Rightarrow> True)"

definition validation_rules_hold_by_comparison :: "events_endpoint \<Rightarrow> bool" where
  "validation_rules_hold_by_comparison q =
     (rule_auction_type (auction_type q)
      \<and> rule_event_type (event_type q)
      \<and> rule_timestamp (occurred_before q)
      \<and> rule_timestamp (occurred_after q)
      \<and> rule_less_than (occurred_after q) (occurred_before q))"

subsection \<open>The payload of an exception\<close>

text \<open>
  What an exception carries: the pairs of its f-string arguments, each the text of an
  expression and the object printed for it.
\<close>

fun error_args :: "error \<Rightarrow> arg list" where
  "error_args (TypeError as) = as"
| "error_args (ValueError as) = as"
| "error_args (AttributeError as) = as"
| "error_args (KeyError as) = as"
| "error_args JSONDecodeError = []"
| "error_args TransportError = []"

fun debug_pairs :: "arg list \<Rightarrow> (string \<times> shown) list" where
  "debug_pairs [] = []"
| "debug_pairs (Text _ # as) = debug_pairs as"
| "debug_pairs (Debug ps # as) = ps @ debug_pairs as"

definition carries :: "error \<Rightarrow> string \<Rightarrow> shown \<Rightarrow> bool" where
  "carries e name s = ((name, s) \<in> set (debug_pairs (error_args e)))"

text \<open>The values an exception prints.\<close>

fun shown_values :: "(string \<times> shown) list \<Rightarrow> pyval list" where
  "shown_values [] = []"
| "shown_values ((_, Repr v) # ps) = v # shown_values ps"
| "shown_values ((_, ReprType _) # ps) = shown_values ps"

definition carried_values :: "error \<Rightarrow> pyval list" where
  "carried_values e = shown_values (debug_pairs (error_args e))"

subsection \<open>Validation without the equal-values check\<close>

text \<open>
  The validator that C10 compares with: the same methods, with the call of
  \<^verbatim>\<open>_assert_param_occurred_before_after_cannot_be_same_value\<close> removed.
\<close>

definition validate_params_occurred_without_same_value_check :: "events_endpoint \<Rightarrow> run" where
  "validate_params_occurred_without_same_value_check self =
     call Validate_params_occurred_before_and_occurred_after
       (and_then (validate_param_occurred_before self)
       (and_then (validate_param_occurred_after self)
          (case (occurred_after self, occurred_before self) of
             (PDatetime after, PDatetime before) \<Rightarrow>
               assert_param_occurred_before_cannot_be_higher_than_occurred_after after before
           | _ \<Rightarrow> returns)))"

definition validate_request_params_without_same_value_check :: "events_endpoint \<Rightarrow> run" where
  "validate_request_params_without_same_value_check self =
     and_then (validate_param_auction_type self)
    (and_then (validate_param_event_type self)
       (validate_params_occurred_without_same_value_check self))"

definition new_events_endpoint_without_same_value_check ::
    "events_endpoint \<Rightarrow> error + events_endpoint" where
  "new_events_endpoint_without_same_value_check kwargs =
     (let self = kwargs\<lparr>http_response := None\<rparr>
      in case snd (validate_request_params_without_same_value_check self) of
           Inl e \<Rightarrow> Inl e
         | Inr _ \<Rightarrow> Inr self)"

section \<open>Properties\<close>

subsection \<open>How the validation methods end\<close>

lemma snd_returns [simp]: "snd returns = Inr ()"
  by (simp add: returns_def)

lemma fst_returns [simp]: "fst returns = []"
  by (simp add: returns_def)

lemma snd_raise [simp]: "snd (raise e) = Inl e"
  by (simp add: raise_def)

lemma fst_raise [simp]: "fst (raise e) = []"
  by (simp add: raise_def)

lemma snd_call [simp]: "snd (call m body) = snd body"
  by (simp add: call_def)

lemma fst_call [simp]: "fst (call m body) = m # fst body"
  by (simp add: call_def)

lemma snd_and_then:
  "snd (and_then r s) = (case snd r of Inl e \<Rightarrow> Inl e | Inr u \<Rightarrow> snd s)"
  by (simp add: and_then_def split: sum.splits)

lemma fst_and_then:
  "fst (and_then r s) = (case snd r of Inl e \<Rightarrow> fst r | Inr u \<Rightarrow> fst r @ fst s)"
  by (simp add: and_then_def split: sum.splits)

lemma auction_type_outcome:
  "snd (validate_param_auction_type self) =
     (if auction_type self = PNone then Inr ()
      else if \<not> isinstance_str (auction_type self)
        then Inl (TypeError
               [Text ''Invalid auction_type type. Must be str or AuctionType Enum.'',
                Debug [(''self.auction_type'', Repr (auction_type self))]])
      else if \<not> py_in (auction_type self) AuctionType_list
        then Inl (ValueError
               [Text ''Invalid auction_type value. Must be str value from AuctionType Enum.'',
                Debug [(''self.auction_type'', Repr (auction_type self))]])
      else Inr ())"
  by (simp add: validate_param_auction_type_def snd_and_then)

lemma event_type_outcome:
  "snd (validate_param_event_type self) =
     (if \<not> isinstance_str (event_type self)
        then Inl (TypeError
               [Text ''Invalid event_type type. Must be str or EventType Enum.'',
                Debug [(''self.event_type'', Repr (event_type self))]])
      else if \<not> py_in (event_type self) EventType_list
        then Inl (ValueError
               [Text ''Invalid event_type value. Must be str value from EventType Enum.'',
                Debug [(''self.event_type'', Repr (event_type self))]])
      else Inr ())"
  by (simp add: validate_param_event_type_def snd_and_then)

lemma request_params_outcome:
  "snd (validate_request_params self) =
     (case snd (validate_param_auction_type self) of
        Inl e \<Rightarrow> Inl e
      | Inr u \<Rightarrow>
          (case snd (validate_param_event_type self) of
             Inl e \<Rightarrow> Inl e
           | Inr u \<Rightarrow> snd (validate_params_occurred_before_and_occurred_after self)))"
  by (simp add: validate_request_params_def snd_and_then split: sum.splits)

lemma validate_ignores_http_response:
  "validate_request_params (self\<lparr>http_response := r\<rparr>) = validate_request_params self"
  by (simp add: validate_request_params_def validate_param_auction_type_def
      validate_param_event_type_def validate_params_occurred_before_and_occurred_after_def
      validate_param_occurred_before_def validate_param_occurred_after_def)

lemma new_events_endpoint_outcome:
  "new_events_endpoint kwargs =
     (case snd (validate_request_params kwargs) of
        Inl e \<Rightarrow> Inl e
      | Inr u \<Rightarrow> Inr (kwargs\<lparr>http_response := None\<rparr>))"
  by (simp add: new_events_endpoint_def post_init_def validate_ignores_http_response Let_def)

lemma AuctionType_list_values: "set AuctionType_list = {''english'', ''dutch'', ''min-price''}"
  by (auto simp: AuctionType_list_def)

lemma EventType_list_values:
  "set EventType_list = {''created'', ''successful'', ''cancelled'', ''bid_entered'',
     ''bid_withdrawn'', ''transfer'', ''approve''}"
  by (auto simp: EventType_list_def)

lemma occurred_guard:
  "isinstance_none_or_datetime v \<Longrightarrow> isinstance_none_or_datetime w \<Longrightarrow>
     (truthy v \<and> truthy w) = (\<exists>x y. v = PDatetime x \<and> w = PDatetime y)"
  by (cases v; cases w) simp_all

lemma occurred_outcome:
  "snd (validate_params_occurred_before_and_occurred_after self) =
     (if \<not> isinstance_none_or_datetime (occurred_before self)
        then Inl (TypeError
               [Text ''Invalid occurred_before type. Must be instance of datetime.'',
                Debug [(''type(self.occurred_before)'',
                        ReprType (type_of (occurred_before self)))]])
      else if \<not> isinstance_none_or_datetime (occurred_after self)
        then Inl (TypeError
               [Text ''Invalid occurred_after type. Must be instance of datetime.'',
                Debug [(''type(self.occurred_after)'',
                        ReprType (type_of (occurred_after self)))]])
      else (case (occurred_after self, occurred_before self) of
              (PDatetime after, PDatetime before) \<Rightarrow>
                if datetime_eq after before
                then Inl (ValueError
                  [Text ''Params occurred_after and occurred_before may not have the same value.'',
                   Debug [(''self.occurred_before'', Repr (PDatetime before)),
                          (''self.occurred_after'', Repr (PDatetime after))]])
                else (case datetime_lt after before of
                        Inl e \<Rightarrow> Inl e
                      | Inr lower \<Rightarrow>
                          if \<not> lower
                          then Inl (ValueError
                            [Text ''Param occurred_before cannot be higher than param occurred_after.'',
                             Debug [(''self.occurred_before'', Repr (PDatetime before)),
                                    (''self.occurred_after'', Repr (PDatetime after))]])
                          else Inr ())
            | _ \<Rightarrow> Inr ()))"
  by (simp add: validate_params_occurred_before_and_occurred_after_def
      validate_param_occurred_before_def validate_param_occurred_after_def
      assert_param_occurred_before_after_cannot_be_same_value_def
      assert_param_occurred_before_cannot_be_higher_than_occurred_after_def
      snd_and_then split: pyval.splits sum.splits)

lemma datetime_eq_naive [simp]: "datetime_eq (Naive x) (Naive y) = (x = y)"
  by (simp add: datetime_eq_def same_tzinfo_def)

lemma datetime_lt_naive [simp]: "datetime_lt (Naive x) (Naive y) = Inr (x < y)"
  by (simp add: datetime_lt_def same_tzinfo_def)

lemma datetime_lt_by_instant:
  "compared_by_instant a b \<Longrightarrow> datetime_lt a b = Inr (instant a < instant b)"
  by (cases "utcoffset a"; cases "utcoffset b")
    (auto simp: compared_by_instant_def datetime_lt_def aware_def instant_def)

lemma datetime_eq_instant:
  "compared_by_instant a b \<Longrightarrow> datetime_eq a b \<Longrightarrow> instant a = instant b"
  by (cases "utcoffset a"; cases "utcoffset b")
    (auto simp: compared_by_instant_def datetime_eq_def aware_def instant_def
      split: if_splits)

lemma datetime_eq_not_lt: "datetime_eq a b \<Longrightarrow> datetime_lt a b = Inr False"
  by (cases "utcoffset a"; cases "utcoffset b")
    (auto simp: datetime_eq_def datetime_lt_def split: if_splits)

lemma datetime_lt_raises:
  "datetime_lt a b = Inl e \<Longrightarrow>
     e = TypeError [Text ''can't compare offset-naive and offset-aware datetimes'']"
  by (cases "utcoffset a"; cases "utcoffset b")
    (auto simp: datetime_lt_def split: if_splits)

lemma datetime_lt_naive_aware:
  "\<not> same_tzinfo a b \<Longrightarrow> aware a \<noteq> aware b \<Longrightarrow>
     \<not> datetime_eq a b
     \<and> datetime_lt a b =
         Inl (TypeError [Text ''can't compare offset-naive and offset-aware datetimes''])"
  by (cases "utcoffset a"; cases "utcoffset b")
    (auto simp: datetime_eq_def datetime_lt_def aware_def)

subsection \<open>The auction-type check\<close>

text \<open>
  C4. The auction-type check: an absent \<^verbatim>\<open>auction_type\<close> passes; a value that is
  not string-like raises a \<^verbatim>\<open>TypeError\<close> and a string-like value outside the
  AuctionType values raises a \<^verbatim>\<open>ValueError\<close>, and construction fails with that very
  error; a string-like value among the AuctionType values passes. When the check passes,
  the outcome of validation is that of the two later groups.
\<close>

theorem auction_type_check:
  "(auction_type self = PNone \<longrightarrow> snd (validate_param_auction_type self) = Inr ())
   \<and> (auction_type self \<noteq> PNone \<and> str_value (auction_type self) = None \<longrightarrow>
        (\<exists>e. snd (validate_param_auction_type self) = Inl e \<and> is_TypeKind e
              \<and> new_events_endpoint self = Inl e))
   \<and> (\<forall>s. str_value (auction_type self) = Some s
            \<and> s \<notin> {''english'', ''dutch'', ''min-price''} \<longrightarrow>
        (\<exists>e. snd (validate_param_auction_type self) = Inl e \<and> is_ValueKind e
              \<and> new_events_endpoint self = Inl e))
   \<and> (\<forall>s. str_value (auction_type self) = Some s
            \<and> s \<in> {''english'', ''dutch'', ''min-price''} \<longrightarrow>
        snd (validate_param_auction_type self) = Inr ())
   \<and> (snd (validate_param_auction_type self) = Inr () \<longrightarrow>
        snd (validate_request_params self) =
          snd (and_then (validate_param_event_type self)
                 (validate_params_occurred_before_and_occurred_after self)))"
proof (intro conjI impI allI)
  assume "auction_type self = PNone"
  then show "snd (validate_param_auction_type self) = Inr ()"
    by (simp add: auction_type_outcome)
next
  assume a: "auction_type self \<noteq> PNone \<and> str_value (auction_type self) = None"
  then have "snd (validate_param_auction_type self) =
      Inl (TypeError
        [Text ''Invalid auction_type type. Must be str or AuctionType Enum.'',
         Debug [(''self.auction_type'', Repr (auction_type self))]])"
    by (simp add: auction_type_outcome isinstance_str_def)
  then show "\<exists>e. snd (validate_param_auction_type self) = Inl e \<and> is_TypeKind e
      \<and> new_events_endpoint self = Inl e"
    by (simp add: new_events_endpoint_outcome request_params_outcome)
next
  fix s
  assume a: "str_value (auction_type self) = Some s
    \<and> s \<notin> {''english'', ''dutch'', ''min-price''}"
  then have "auction_type self \<noteq> PNone"
    by auto
  with a have "snd (validate_param_auction_type self) =
      Inl (ValueError
        [Text ''Invalid auction_type value. Must be str value from AuctionType Enum.'',
         Debug [(''self.auction_type'', Repr (auction_type self))]])"
    by (simp add: auction_type_outcome isinstance_str_def py_in_def AuctionType_list_values)
  then show "\<exists>e. snd (validate_param_auction_type self) = Inl e \<and> is_ValueKind e
      \<and> new_events_endpoint self = Inl e"
    by (simp add: new_events_endpoint_outcome request_params_outcome)
next
  fix s
  assume a: "str_value (auction_type self) = Some s
    \<and> s \<in> {''english'', ''dutch'', ''min-price''}"
  then show "snd (validate_param_auction_type self) = Inr ()"
    by (simp add: auction_type_outcome isinstance_str_def py_in_def AuctionType_list_values)
next
  assume "snd (validate_param_auction_type self) = Inr ()"
  then show "snd (validate_request_params self) =
      snd (and_then (validate_param_event_type self)
             (validate_params_occurred_before_and_occurred_after self))"
    by (simp add: request_params_outcome snd_and_then)
qed

theorem auction_type_check_witness:
  "snd (validate_param_auction_type default_fields) = Inr ()
   \<and> new_events_endpoint (default_fields\<lparr>auction_type := PFloat 0\<rparr>) =
       Inl (TypeError
         [Text ''Invalid auction_type type. Must be str or AuctionType Enum.'',
          Debug [(''self.auction_type'', Repr (PFloat 0))]])
   \<and> new_events_endpoint (default_fields\<lparr>auction_type := PStr ''randomstr''\<rparr>) =
       Inl (ValueError
         [Text ''Invalid auction_type value. Must be str value from AuctionType Enum.'',
          Debug [(''self.auction_type'', Repr (PStr ''randomstr''))]])
   \<and> snd (validate_param_auction_type (default_fields\<lparr>auction_type := PAuctionType DUTCH\<rparr>))
       = Inr ()
   \<and> snd (validate_param_auction_type (default_fields\<lparr>auction_type := PStr ''min-price''\<rparr>))
       = Inr ()"
  using auction_type_check [of default_fields]
    auction_type_check [of "default_fields\<lparr>auction_type := PFloat 0\<rparr>"]
    auction_type_check [of "default_fields\<lparr>auction_type := PStr ''randomstr''\<rparr>"]
    auction_type_check [of "default_fields\<lparr>auction_type := PAuctionType DUTCH\<rparr>"]
    auction_type_check [of "default_fields\<lparr>auction_type := PStr ''min-price''\<rparr>"]
  by (simp add: default_fields_def auction_type_outcome new_events_endpoint_outcome
      request_params_outcome isinstance_str_def py_in_def AuctionType_list_def)

subsection \<open>The event-type check\<close>

text \<open>
  C3. The event-type check: a value that is not string-like (\<^verbatim>\<open>None\<close>, the
  default, among them) raises a \<^verbatim>\<open>TypeError\<close>, and a string-like value outside the
  EventType values raises a \<^verbatim>\<open>ValueError\<close>; either way construction fails, and it
  fails with that very error whenever the auction-type check, which runs first, has
  passed. A string-like value among the EventType values passes the check.
\<close>

theorem event_type_check:
  "(str_value (event_type self) = None \<longrightarrow>
        (\<exists>e. snd (validate_param_event_type self) = Inl e \<and> is_TypeKind e
              \<and> (\<exists>e'. new_events_endpoint self = Inl e')
              \<and> (snd (validate_param_auction_type self) = Inr () \<longrightarrow>
                    new_events_endpoint self = Inl e)))
   \<and> (\<forall>s. str_value (event_type self) = Some s
            \<and> s \<notin> {''created'', ''successful'', ''cancelled'', ''bid_entered'',
                     ''bid_withdrawn'', ''transfer'', ''approve''} \<longrightarrow>
        (\<exists>e. snd (validate_param_event_type self) = Inl e \<and> is_ValueKind e
              \<and> (\<exists>e'. new_events_endpoint self = Inl e')
              \<and> (snd (validate_param_auction_type self) = Inr () \<longrightarrow>
                    new_events_endpoint self = Inl e)))
   \<and> (event_type self = PNone \<longrightarrow> (\<exists>e. new_events_endpoint self = Inl e))
   \<and> (\<forall>s. str_value (event_type self) = Some s
            \<and> s \<in> {''created'', ''successful'', ''cancelled'', ''bid_entered'',
                     ''bid_withdrawn'', ''transfer'', ''approve''} \<longrightarrow>
        snd (validate_param_event_type self) = Inr ())"
proof -
  have fails: "\<exists>e'. new_events_endpoint self = Inl e'"
    if "snd (validate_param_event_type self) = Inl e" for e
    using that
    by (cases "snd (validate_param_auction_type self)")
      (simp_all add: new_events_endpoint_outcome request_params_outcome)
  have same: "new_events_endpoint self = Inl e"
    if "snd (validate_param_event_type self) = Inl e"
      and "snd (validate_param_auction_type self) = Inr ()" for e
    using that by (simp add: new_events_endpoint_outcome request_params_outcome)
  have type_kind: "\<exists>e. snd (validate_param_event_type self) = Inl e \<and> is_TypeKind e"
    if "str_value (event_type self) = None"
    using that by (simp add: event_type_outcome isinstance_str_def)
  have value_kind: "\<exists>e. snd (validate_param_event_type self) = Inl e \<and> is_ValueKind e"
    if "str_value (event_type self) = Some s"
      and "s \<notin> {''created'', ''successful'', ''cancelled'', ''bid_entered'',
                 ''bid_withdrawn'', ''transfer'', ''approve''}" for s
    using that
    by (simp add: event_type_outcome isinstance_str_def py_in_def EventType_list_values)
  have passes: "snd (validate_param_event_type self) = Inr ()"
    if "str_value (event_type self) = Some s"
      and "s \<in> {''created'', ''successful'', ''cancelled'', ''bid_entered'',
                 ''bid_withdrawn'', ''transfer'', ''approve''}" for s
    using that
    by (simp add: event_type_outcome isinstance_str_def py_in_def EventType_list_values)
  have none: "\<exists>e. new_events_endpoint self = Inl e" if "event_type self = PNone"
  proof -
    from that have "str_value (event_type self) = None" by simp
    then obtain e where "snd (validate_param_event_type self) = Inl e"
      using type_kind by auto
    then show ?thesis by (rule fails)
  qed
  show ?thesis
  proof (intro conjI impI allI)
    assume "str_value (event_type self) = None"
    then obtain e where e: "snd (validate_param_event_type self) = Inl e" "is_TypeKind e"
      using type_kind by auto
    show "\<exists>e. snd (validate_param_event_type self) = Inl e \<and> is_TypeKind e
        \<and> (\<exists>e'. new_events_endpoint self = Inl e')
        \<and> (snd (validate_param_auction_type self) = Inr () \<longrightarrow>
              new_events_endpoint self = Inl e)"
      using e fails [OF e(1)] same [OF e(1)] by (intro exI [of _ e]) simp
  next
    fix s
    assume "str_value (event_type self) = Some s
      \<and> s \<notin> {''created'', ''successful'', ''cancelled'', ''bid_entered'',
                ''bid_withdrawn'', ''transfer'', ''approve''}"
    then have "\<exists>e. snd (validate_param_event_type self) = Inl e \<and> is_ValueKind e"
      by (intro value_kind [of s]) simp_all
    then obtain e where e: "snd (validate_param_event_type self) = Inl e" "is_ValueKind e"
      by auto
    show "\<exists>e. snd (validate_param_event_type self) = Inl e \<and> is_ValueKind e
        \<and> (\<exists>e'. new_events_endpoint self = Inl e')
        \<and> (snd (validate_param_auction_type self) = Inr () \<longrightarrow>
              new_events_endpoint self = Inl e)"
      using e fails [OF e(1)] same [OF e(1)] by (intro exI [of _ e]) simp
  next
    assume "event_type self = PNone"
    with none show "\<exists>e. new_events_endpoint self = Inl e" .
  next
    fix s
    assume "str_value (event_type self) = Some s
      \<and> s \<in> {''created'', ''successful'', ''cancelled'', ''bid_entered'',
                ''bid_withdrawn'', ''transfer'', ''approve''}"
    then show "snd (validate_param_event_type self) = Inr ()"
      by (intro passes [of s]) simp_all
  qed
qed

theorem event_type_check_witness:
  "new_events_endpoint (default_fields\<lparr>event_type := PFloat 0\<rparr>) =
       Inl (TypeError
         [Text ''Invalid event_type type. Must be str or EventType Enum.'',
          Debug [(''self.event_type'', Repr (PFloat 0))]])
   \<and> new_events_endpoint (default_fields\<lparr>event_type := PStr ''randomstr''\<rparr>) =
       Inl (ValueError
         [Text ''Invalid event_type value. Must be str value from EventType Enum.'',
          Debug [(''self.event_type'', Repr (PStr ''randomstr''))]])
   \<and> new_events_endpoint default_fields =
       Inl (TypeError
         [Text ''Invalid event_type type. Must be str or EventType Enum.'',
          Debug [(''self.event_type'', Repr PNone)]])
   \<and> snd (validate_param_event_type (default_fields\<lparr>event_type := PEventType SUCCESSFUL\<rparr>))
       = Inr ()
   \<and> snd (validate_param_event_type (default_fields\<lparr>event_type := PStr ''transfer''\<rparr>))
       = Inr ()"
  using event_type_check [of default_fields]
    event_type_check [of "default_fields\<lparr>event_type := PFloat 0\<rparr>"]
    event_type_check [of "default_fields\<lparr>event_type := PStr ''randomstr''\<rparr>"]
    event_type_check [of "default_fields\<lparr>event_type := PEventType SUCCESSFUL\<rparr>"]
    event_type_check [of "default_fields\<lparr>event_type := PStr ''transfer''\<rparr>"]
  by (simp add: default_fields_def auction_type_outcome event_type_outcome
      new_events_endpoint_outcome request_params_outcome isinstance_str_def py_in_def
      EventType_list_def)

subsection \<open>The check of occurred_before and occurred_after\<close>

lemma isinstance_none_or_datetime_type:
  "isinstance_none_or_datetime v = (type_of v = NoneType \<or> type_of v = DatetimeT)"
  by (cases v) simp_all

lemma occurred_failure_fails_construction:
  "snd (validate_params_occurred_before_and_occurred_after self) = Inl e \<Longrightarrow>
     \<exists>e'. new_events_endpoint self = Inl e'"
  by (cases "snd (validate_param_auction_type self)";
      cases "snd (validate_param_event_type self)")
    (simp_all add: new_events_endpoint_outcome request_params_outcome)

lemma occurred_outcome_is_construction:
  "snd (validate_param_auction_type self) = Inr () \<Longrightarrow>
   snd (validate_param_event_type self) = Inr () \<Longrightarrow>
     new_events_endpoint self =
       (case snd (validate_params_occurred_before_and_occurred_after self) of
          Inl e \<Rightarrow> Inl e
        | Inr u \<Rightarrow> Inr (self\<lparr>http_response := None\<rparr>))"
  by (simp add: new_events_endpoint_outcome request_params_outcome)

lemma occurred_type_error:
  "type_of (occurred_before self) \<noteq> NoneType \<and> type_of (occurred_before self) \<noteq> DatetimeT
     \<or> type_of (occurred_after self) \<noteq> NoneType \<and> type_of (occurred_after self) \<noteq> DatetimeT
   \<Longrightarrow> \<exists>e. snd (validate_params_occurred_before_and_occurred_after self) = Inl e
          \<and> is_TypeKind e"
  by (auto simp: occurred_outcome isinstance_none_or_datetime_type)

lemma occurred_same_value_error:
  "occurred_after self = PDatetime a \<Longrightarrow> occurred_before self = PDatetime b \<Longrightarrow>
   datetime_eq a b \<Longrightarrow>
     \<exists>e. snd (validate_params_occurred_before_and_occurred_after self) = Inl e
        \<and> is_ValueKind e"
  by (simp add: occurred_outcome)

lemma occurred_not_lower_error:
  "occurred_after self = PDatetime a \<Longrightarrow> occurred_before self = PDatetime b \<Longrightarrow>
   datetime_lt a b = Inr False \<Longrightarrow>
     \<exists>e. snd (validate_params_occurred_before_and_occurred_after self) = Inl e
        \<and> is_ValueKind e"
  by (simp add: occurred_outcome)

lemma occurred_lower_passes:
  "occurred_after self = PDatetime a \<Longrightarrow> occurred_before self = PDatetime b \<Longrightarrow>
   datetime_lt a b = Inr True \<Longrightarrow>
     snd (validate_params_occurred_before_and_occurred_after self) = Inr ()"
  using datetime_eq_not_lt [of a b] by (auto simp: occurred_outcome)

lemma occurred_naive_aware_error:
  "occurred_after self = PDatetime a \<Longrightarrow> occurred_before self = PDatetime b \<Longrightarrow>
   \<not> same_tzinfo a b \<Longrightarrow> aware a \<noteq> aware b \<Longrightarrow>
     \<exists>e. snd (validate_params_occurred_before_and_occurred_after self) = Inl e
        \<and> is_TypeKind e"
  using datetime_lt_naive_aware [of a b] by (simp add: occurred_outcome)

text \<open>
  C2, as the code has it. A value of \<^verbatim>\<open>occurred_before\<close> or
  \<^verbatim>\<open>occurred_after\<close> that is present and not a datetime raises a
  \<^verbatim>\<open>TypeError\<close>. For two datetimes it is the comparison of the language that
  decides: when \<^verbatim>\<open>==\<close> holds, or \<^verbatim>\<open>occurred_after < occurred_before\<close> is
  false, a \<^verbatim>\<open>ValueError\<close> is raised; when \<^verbatim>\<open><\<close> is true the check
  passes; and a naive with an aware datetime (of another \<^verbatim>\<open>tzinfo\<close>) raises the
  \<^verbatim>\<open>TypeError\<close> of the comparison. In each failing case construction fails, and
  with that very error whenever the auction-type and event-type checks, which run first,
  have passed; in the passing case construction then succeeds. For two naive datetimes,
  and for two aware ones that do not share a \<^verbatim>\<open>tzinfo\<close> object with different
  offsets, \<^verbatim>\<open><\<close> is the order of the instants, and equal datetimes have equal
  instants.
\<close>

theorem occurred_before_after_check:
  "((type_of (occurred_before self) \<noteq> NoneType \<and> type_of (occurred_before self) \<noteq> DatetimeT
       \<or> type_of (occurred_after self) \<noteq> NoneType \<and> type_of (occurred_after self) \<noteq> DatetimeT)
      \<longrightarrow>
        (\<exists>e. snd (validate_params_occurred_before_and_occurred_after self) = Inl e
           \<and> is_TypeKind e
           \<and> (\<exists>e'. new_events_endpoint self = Inl e')
           \<and> (snd (validate_param_auction_type self) = Inr ()
                \<and> snd (validate_param_event_type self) = Inr () \<longrightarrow>
                  new_events_endpoint self = Inl e)))
   \<and> (\<forall>a b. occurred_after self = PDatetime a \<and> occurred_before self = PDatetime b
          \<and> (datetime_eq a b \<or> datetime_lt a b = Inr False) \<longrightarrow>
        (\<exists>e. snd (validate_params_occurred_before_and_occurred_after self) = Inl e
           \<and> is_ValueKind e
           \<and> (\<exists>e'. new_events_endpoint self = Inl e')
           \<and> (snd (validate_param_auction_type self) = Inr ()
                \<and> snd (validate_param_event_type self) = Inr () \<longrightarrow>
                  new_events_endpoint self = Inl e)))
   \<and> (\<forall>a b. occurred_after self = PDatetime a \<and> occurred_before self = PDatetime b
          \<and> datetime_lt a b = Inr True \<longrightarrow>
        snd (validate_params_occurred_before_and_occurred_after self) = Inr ()
        \<and> (snd (validate_param_auction_type self) = Inr ()
             \<and> snd (validate_param_event_type self) = Inr () \<longrightarrow>
               new_events_endpoint self = Inr (self\<lparr>http_response := None\<rparr>)))
   \<and> (\<forall>a b. occurred_after self = PDatetime a \<and> occurred_before self = PDatetime b
          \<and> \<not> same_tzinfo a b \<and> aware a \<noteq> aware b \<longrightarrow>
        (\<exists>e. snd (validate_params_occurred_before_and_occurred_after self) = Inl e
           \<and> is_TypeKind e
           \<and> (\<exists>e'. new_events_endpoint self = Inl e')
           \<and> (snd (validate_param_auction_type self) = Inr ()
                \<and> snd (validate_param_event_type self) = Inr () \<longrightarrow>
                  new_events_endpoint self = Inl e)))
   \<and> (\<forall>a b. compared_by_instant a b \<longrightarrow>
        datetime_lt a b = Inr (instant a < instant b)
        \<and> (datetime_eq a b \<longrightarrow> instant a = instant b))"
proof -
  have with_construction:
    "\<exists>e. snd (validate_params_occurred_before_and_occurred_after self) = Inl e \<and> K e
        \<and> (\<exists>e'. new_events_endpoint self = Inl e')
        \<and> (snd (validate_param_auction_type self) = Inr ()
             \<and> snd (validate_param_event_type self) = Inr () \<longrightarrow>
               new_events_endpoint self = Inl e)"
    if "\<exists>e. snd (validate_params_occurred_before_and_occurred_after self) = Inl e \<and> K e"
    for K
  proof -
    from that obtain e
      where e: "snd (validate_params_occurred_before_and_occurred_after self) = Inl e" "K e"
      by auto
    show ?thesis
      using e occurred_failure_fails_construction [OF e(1)]
      by (intro exI [of _ e]) (simp add: occurred_outcome_is_construction)
  qed
  show ?thesis
  proof (intro conjI impI allI)
    assume "type_of (occurred_before self) \<noteq> NoneType
        \<and> type_of (occurred_before self) \<noteq> DatetimeT
      \<or> type_of (occurred_after self) \<noteq> NoneType
        \<and> type_of (occurred_after self) \<noteq> DatetimeT"
    then show "\<exists>e. snd (validate_params_occurred_before_and_occurred_after self) = Inl e
        \<and> is_TypeKind e
        \<and> (\<exists>e'. new_events_endpoint self = Inl e')
        \<and> (snd (validate_param_auction_type self) = Inr ()
             \<and> snd (validate_param_event_type self) = Inr () \<longrightarrow>
               new_events_endpoint self = Inl e)"
      by (intro with_construction occurred_type_error)
  next
    fix a b
    assume h: "occurred_after self = PDatetime a \<and> occurred_before self = PDatetime b
      \<and> (datetime_eq a b \<or> datetime_lt a b = Inr False)"
    then have "\<exists>e. snd (validate_params_occurred_before_and_occurred_after self) = Inl e
        \<and> is_ValueKind e"
      using occurred_same_value_error [of self a b] occurred_not_lower_error [of self a b]
      by fastforce
    then show "\<exists>e. snd (validate_params_occurred_before_and_occurred_after self) = Inl e
        \<and> is_ValueKind e
        \<and> (\<exists>e'. new_events_endpoint self = Inl e')
        \<and> (snd (validate_param_auction_type self) = Inr ()
             \<and> snd (validate_param_event_type self) = Inr () \<longrightarrow>
               new_events_endpoint self = Inl e)"
      by (rule with_construction)
  next
    fix a b
    assume h: "occurred_after self = PDatetime a \<and> occurred_before self = PDatetime b
      \<and> datetime_lt a b = Inr True"
    then show "snd (validate_params_occurred_before_and_occurred_after self) = Inr ()"
      by (intro occurred_lower_passes [of self a b]) simp_all
  next
    fix a b
    assume h: "occurred_after self = PDatetime a \<and> occurred_before self = PDatetime b
      \<and> datetime_lt a b = Inr True"
      and "snd (validate_param_auction_type self) = Inr ()
        \<and> snd (validate_param_event_type self) = Inr ()"
    moreover from h have "snd (validate_params_occurred_before_and_occurred_after self) = Inr ()"
      by (intro occurred_lower_passes [of self a b]) simp_all
    ultimately show "new_events_endpoint self = Inr (self\<lparr>http_response := None\<rparr>)"
      by (simp add: occurred_outcome_is_construction)
  next
    fix a b
    assume h: "occurred_after self = PDatetime a \<and> occurred_before self = PDatetime b
      \<and> \<not> same_tzinfo a b \<and> aware a \<noteq> aware b"
    then have "\<exists>e. snd (validate_params_occurred_before_and_occurred_after self) = Inl e
        \<and> is_TypeKind e"
      by (intro occurred_naive_aware_error [of self a b]) simp_all
    then show "\<exists>e. snd (validate_params_occurred_before_and_occurred_after self) = Inl e
        \<and> is_TypeKind e
        \<and> (\<exists>e'. new_events_endpoint self = Inl e')
        \<and> (snd (validate_param_auction_type self) = Inr ()
             \<and> snd (validate_param_event_type self) = Inr () \<longrightarrow>
               new_events_endpoint self = Inl e)"
      by (rule with_construction)
  next
    fix a b
    assume "compared_by_instant a b"
    then show "datetime_lt a b = Inr (instant a < instant b)"
      by (rule datetime_lt_by_instant)
  next
    fix a b
    assume "compared_by_instant a b" and "datetime_eq a b"
    then show "instant a = instant b"
      by (rule datetime_eq_instant)
  qed
qed

text \<open>
  The first four inputs of the witness are those of the repository's tests: a boolean for
  \<^verbatim>\<open>occurred_before\<close>; the same naive datetime twice; \<^verbatim>\<open>occurred_after\<close>
  one microsecond after \<^verbatim>\<open>occurred_before\<close>; and \<^verbatim>\<open>occurred_after\<close>
  before \<^verbatim>\<open>occurred_before\<close>, all with \<^verbatim>\<open>event_type\<close> a member of the
  enum. The last one pairs a naive datetime with one in UTC.
\<close>

theorem occurred_before_after_check_witness:
  "new_events_endpoint
     (default_fields\<lparr>event_type := PEventType SUCCESSFUL, occurred_before := PBool True\<rparr>) =
       Inl (TypeError
         [Text ''Invalid occurred_before type. Must be instance of datetime.'',
          Debug [(''type(self.occurred_before)'', ReprType BoolT)]])
   \<and> new_events_endpoint
     (default_fields\<lparr>event_type := PEventType SUCCESSFUL,
        occurred_before := PDatetime (Naive 5), occurred_after := PDatetime (Naive 5)\<rparr>) =
       Inl (ValueError
         [Text ''Params occurred_after and occurred_before may not have the same value.'',
          Debug [(''self.occurred_before'', Repr (PDatetime (Naive 5))),
                 (''self.occurred_after'', Repr (PDatetime (Naive 5)))]])
   \<and> new_events_endpoint
     (default_fields\<lparr>event_type := PEventType SUCCESSFUL,
        occurred_before := PDatetime (Naive 5), occurred_after := PDatetime (Naive 6)\<rparr>) =
       Inl (ValueError
         [Text ''Param occurred_before cannot be higher than param occurred_after.'',
          Debug [(''self.occurred_before'', Repr (PDatetime (Naive 5))),
                 (''self.occurred_after'', Repr (PDatetime (Naive 6)))]])
   \<and> new_events_endpoint
     (default_fields\<lparr>event_type := PEventType SUCCESSFUL,
        occurred_before := PDatetime (Naive 6), occurred_after := PDatetime (Naive 5)\<rparr>) =
       Inr (default_fields\<lparr>event_type := PEventType SUCCESSFUL,
              occurred_before := PDatetime (Naive 6), occurred_after := PDatetime (Naive 5)\<rparr>)
   \<and> new_events_endpoint
     (default_fields\<lparr>event_type := PEventType SUCCESSFUL,
        occurred_before := PDatetime (Datetime 6 (Some (Tzinfo 0 (Some 0) (Some 0)))),
        occurred_after := PDatetime (Naive 5)\<rparr>) =
       Inl (TypeError [Text ''can't compare offset-naive and offset-aware datetimes''])"
  using
    occurred_before_after_check [of
      "default_fields\<lparr>event_type := PEventType SUCCESSFUL, occurred_before := PBool True\<rparr>"]
    occurred_before_after_check [of
      "default_fields\<lparr>event_type := PEventType SUCCESSFUL,
         occurred_before := PDatetime (Naive 5), occurred_after := PDatetime (Naive 5)\<rparr>"]
    occurred_before_after_check [of
      "default_fields\<lparr>event_type := PEventType SUCCESSFUL,
         occurred_before := PDatetime (Naive 5), occurred_after := PDatetime (Naive 6)\<rparr>"]
    occurred_before_after_check [of
      "default_fields\<lparr>event_type := PEventType SUCCESSFUL,
         occurred_before := PDatetime (Naive 6), occurred_after := PDatetime (Naive 5)\<rparr>"]
    occurred_before_after_check [of
      "default_fields\<lparr>event_type := PEventType SUCCESSFUL,
         occurred_before := PDatetime (Datetime 6 (Some (Tzinfo 0 (Some 0) (Some 0)))),
         occurred_after := PDatetime (Naive 5)\<rparr>"]
  by (simp add: default_fields_def auction_type_outcome event_type_outcome occurred_outcome
      new_events_endpoint_outcome request_params_outcome isinstance_str_def py_in_def
      EventType_list_def datetime_eq_def datetime_lt_def same_tzinfo_def)

text \<open>
  C2, as the claim has it, fails where the comparison of the language is not the order of
  the instants, for two aware datetimes of one \<^verbatim>\<open>tzinfo\<close> object. With
  \<^verbatim>\<open>occurred_after\<close> at 01:30 daylight time and \<^verbatim>\<open>occurred_before\<close> at
  01:30 standard time, one hour later, \<^verbatim>\<open>occurred_after\<close> is strictly before
  \<^verbatim>\<open>occurred_before\<close>, yet the two compare equal and construction raises the
  \<^verbatim>\<open>ValueError\<close> of the equal-values check. With \<^verbatim>\<open>occurred_after\<close> at
  the skipped 02:30 and \<^verbatim>\<open>occurred_before\<close> at 03:10, twenty minutes before
  it, \<^verbatim>\<open>occurred_after\<close> is after \<^verbatim>\<open>occurred_before\<close>, yet construction
  succeeds.
\<close>

theorem occurred_fold_and_gap_counterexample:
  "aware new_york_0130_fold0 \<and> aware new_york_0130_fold1
   \<and> instant new_york_0130_fold0 < instant new_york_0130_fold1
   \<and> new_events_endpoint
     (default_fields\<lparr>event_type := PEventType SUCCESSFUL,
        occurred_before := PDatetime new_york_0130_fold1,
        occurred_after := PDatetime new_york_0130_fold0\<rparr>) =
       Inl (ValueError
         [Text ''Params occurred_after and occurred_before may not have the same value.'',
          Debug [(''self.occurred_before'', Repr (PDatetime new_york_0130_fold1)),
                 (''self.occurred_after'', Repr (PDatetime new_york_0130_fold0))]])
   \<and> aware new_york_0230_gap \<and> aware new_york_0310
   \<and> instant new_york_0310 < instant new_york_0230_gap
   \<and> new_events_endpoint
     (default_fields\<lparr>event_type := PEventType SUCCESSFUL,
        occurred_before := PDatetime new_york_0310,
        occurred_after := PDatetime new_york_0230_gap\<rparr>) =
       Inr (default_fields\<lparr>event_type := PEventType SUCCESSFUL,
              occurred_before := PDatetime new_york_0310,
              occurred_after := PDatetime new_york_0230_gap\<rparr>)"
  by (simp add: default_fields_def auction_type_outcome event_type_outcome occurred_outcome
      new_events_endpoint_outcome request_params_outcome isinstance_str_def py_in_def
      EventType_list_def datetime_eq_def datetime_lt_def same_tzinfo_def aware_def
      instant_def new_york_0130_fold0_def new_york_0130_fold1_def new_york_0230_gap_def
      new_york_0310_def)

subsection \<open>Construction and the validation rules\<close>

lemma auction_type_passes_iff:
  "(snd (validate_param_auction_type q) = Inr ()) = rule_auction_type (auction_type q)"
  by (simp add: auction_type_outcome rule_auction_type_def isinstance_str_def py_in_def
      AuctionType_list_values split: option.splits)

lemma event_type_passes_iff:
  "(snd (validate_param_event_type q) = Inr ()) = rule_event_type (event_type q)"
  by (simp add: event_type_outcome rule_event_type_def isinstance_str_def py_in_def
      EventType_list_values split: option.splits)

lemma rule_timestamp_isinstance: "rule_timestamp v = isinstance_none_or_datetime v"
  by (cases v) (simp_all add: rule_timestamp_def)

lemma datetimes_pass_iff:
  "((if datetime_eq a b then Inl e1
     else (case datetime_lt a b of
             Inl e \<Rightarrow> Inl e
           | Inr lower \<Rightarrow> if \<not> lower then Inl e2 else Inr ())) = Inr ())
   = (datetime_lt a b = Inr True)"
  using datetime_eq_not_lt [of a b] by (auto split: sum.splits)

lemma occurred_passes_iff:
  "(snd (validate_params_occurred_before_and_occurred_after q) = Inr ()) =
     (rule_timestamp (occurred_before q) \<and> rule_timestamp (occurred_after q)
      \<and> rule_less_than (occurred_after q) (occurred_before q))"
proof (cases "isinstance_none_or_datetime (occurred_before q)
    \<and> isinstance_none_or_datetime (occurred_after q)")
  case False
  then show ?thesis
    by (auto simp: occurred_outcome rule_timestamp_isinstance)
next
  case True
  then show ?thesis
    by (cases "occurred_after q"; cases "occurred_before q")
      (simp_all add: occurred_outcome rule_timestamp_isinstance rule_less_than_def
        datetimes_pass_iff)
qed

lemma validation_passes_iff:
  "(snd (validate_request_params q) = Inr ()) = validation_rules_hold_by_comparison q"
proof -
  have "(snd (validate_request_params q) = Inr ()) =
      (snd (validate_param_auction_type q) = Inr ()
       \<and> snd (validate_param_event_type q) = Inr ()
       \<and> snd (validate_params_occurred_before_and_occurred_after q) = Inr ())"
    by (cases "snd (validate_param_auction_type q)"; cases "snd (validate_param_event_type q)")
      (simp_all add: request_params_outcome)
  then show ?thesis
    by (simp add: auction_type_passes_iff event_type_passes_iff occurred_passes_iff
        validation_rules_hold_by_comparison_def)
qed

lemma rules_agree_by_instant:
  "occurred_after q = PDatetime a \<Longrightarrow> occurred_before q = PDatetime b \<Longrightarrow>
   compared_by_instant a b \<Longrightarrow>
     validation_rules_hold_by_comparison q = validation_rules_hold q"
  by (simp add: validation_rules_hold_by_comparison_def validation_rules_hold_def
      rule_less_than_def rule_order_def strictly_earlier_def datetime_lt_by_instant
      compared_by_instant_def)

lemma rules_agree_without_pair:
  "(\<forall>a. occurred_after q \<noteq> PDatetime a) \<or> (\<forall>b. occurred_before q \<noteq> PDatetime b) \<Longrightarrow>
     validation_rules_hold_by_comparison q = validation_rules_hold q"
  by (auto simp: validation_rules_hold_by_comparison_def validation_rules_hold_def
      rule_less_than_def rule_order_def split: pyval.splits)

text \<open>
  C1, as the code has it. Construction succeeds if and only if every validation rule
  holds, the last rule being that of the comparison: the auction type is absent or a
  string-like member of the AuctionType values, the event type is a string-like member of
  the EventType values, each of \<^verbatim>\<open>occurred_before\<close> and
  \<^verbatim>\<open>occurred_after\<close> is absent or a datetime, and, when both are datetimes,
  \<^verbatim>\<open>occurred_after < occurred_before\<close> is true. When the rules hold the caller
  gets the object with the fields as given; when one is violated the caller gets an error
  and no object. These are the rules in the words of the specification whenever the two
  are not both datetimes, and whenever they are datetimes the language compares by
  instants: two naive ones, or two aware ones that do not share a \<^verbatim>\<open>tzinfo\<close>
  object with different offsets.
\<close>

theorem construction_iff_rules_by_comparison:
  "((\<exists>self. new_events_endpoint kwargs = Inr self) = validation_rules_hold_by_comparison kwargs)
   \<and> (validation_rules_hold_by_comparison kwargs \<longrightarrow>
        new_events_endpoint kwargs = Inr (kwargs\<lparr>http_response := None\<rparr>))
   \<and> (\<not> validation_rules_hold_by_comparison kwargs \<longrightarrow>
        (\<exists>e. new_events_endpoint kwargs = Inl e))
   \<and> (\<forall>a b. occurred_after kwargs = PDatetime a \<and> occurred_before kwargs = PDatetime b
          \<and> compared_by_instant a b \<longrightarrow>
        validation_rules_hold_by_comparison kwargs = validation_rules_hold kwargs)
   \<and> ((\<forall>a. occurred_after kwargs \<noteq> PDatetime a) \<or> (\<forall>b. occurred_before kwargs \<noteq> PDatetime b)
        \<longrightarrow> validation_rules_hold_by_comparison kwargs = validation_rules_hold kwargs)"
proof -
  have main: "((\<exists>self. new_events_endpoint kwargs = Inr self)
        = validation_rules_hold_by_comparison kwargs)
      \<and> (validation_rules_hold_by_comparison kwargs \<longrightarrow>
           new_events_endpoint kwargs = Inr (kwargs\<lparr>http_response := None\<rparr>))
      \<and> (\<not> validation_rules_hold_by_comparison kwargs \<longrightarrow>
           (\<exists>e. new_events_endpoint kwargs = Inl e))"
  proof (cases "snd (validate_request_params kwargs)")
    case (Inl e)
    then have "\<not> validation_rules_hold_by_comparison kwargs"
      using validation_passes_iff [of kwargs] by simp
    with Inl show ?thesis
      by (simp add: new_events_endpoint_outcome)
  next
    case (Inr u)
    then have "validation_rules_hold_by_comparison kwargs"
      using validation_passes_iff [of kwargs] by simp
    with Inr show ?thesis
      by (simp add: new_events_endpoint_outcome)
  qed
  have by_instant: "\<forall>a b. occurred_after kwargs = PDatetime a
      \<and> occurred_before kwargs = PDatetime b \<and> compared_by_instant a b \<longrightarrow>
        validation_rules_hold_by_comparison kwargs = validation_rules_hold kwargs"
    using rules_agree_by_instant [of kwargs] by blast
  have without_pair: "(\<forall>a. occurred_after kwargs \<noteq> PDatetime a)
      \<or> (\<forall>b. occurred_before kwargs \<noteq> PDatetime b) \<longrightarrow>
        validation_rules_hold_by_comparison kwargs = validation_rules_hold kwargs"
    using rules_agree_without_pair [of kwargs] by blast
  from main by_instant without_pair show ?thesis
    by (intro conjI) (erule conjunct1, erule conjunct2 [THEN conjunct1],
      erule conjunct2 [THEN conjunct2])
qed

theorem construction_iff_rules_by_comparison_witness:
  "validation_rules_hold_by_comparison
     (default_fields\<lparr>event_type := PStr ''successful'', auction_type := PAuctionType DUTCH,
        occurred_before := PDatetime (Datetime 9 (Some (Tzinfo 0 (Some 0) (Some 0)))),
        occurred_after := PDatetime (Datetime 2 (Some (Tzinfo 0 (Some 0) (Some 0))))\<rparr>)
   \<and> new_events_endpoint
     (default_fields\<lparr>event_type := PStr ''successful'', auction_type := PAuctionType DUTCH,
        occurred_before := PDatetime (Datetime 9 (Some (Tzinfo 0 (Some 0) (Some 0)))),
        occurred_after := PDatetime (Datetime 2 (Some (Tzinfo 0 (Some 0) (Some 0))))\<rparr>) =
     Inr (default_fields\<lparr>event_type := PStr ''successful'', auction_type := PAuctionType DUTCH,
        occurred_before := PDatetime (Datetime 9 (Some (Tzinfo 0 (Some 0) (Some 0)))),
        occurred_after := PDatetime (Datetime 2 (Some (Tzinfo 0 (Some 0) (Some 0))))\<rparr>)
   \<and> \<not> validation_rules_hold_by_comparison
     (default_fields\<lparr>event_type := PStr ''successful'',
        occurred_before := PDatetime (Datetime 9 (Some (Tzinfo 0 (Some 0) (Some 0)))),
        occurred_after := PDatetime (Naive 2)\<rparr>)
   \<and> new_events_endpoint
     (default_fields\<lparr>event_type := PStr ''successful'',
        occurred_before := PDatetime (Datetime 9 (Some (Tzinfo 0 (Some 0) (Some 0)))),
        occurred_after := PDatetime (Naive 2)\<rparr>) =
     Inl (TypeError [Text ''can't compare offset-naive and offset-aware datetimes''])"
  using
    construction_iff_rules_by_comparison [of
      "default_fields\<lparr>event_type := PStr ''successful'', auction_type := PAuctionType DUTCH,
         occurred_before := PDatetime (Datetime 9 (Some (Tzinfo 0 (Some 0) (Some 0)))),
         occurred_after := PDatetime (Datetime 2 (Some (Tzinfo 0 (Some 0) (Some 0))))\<rparr>"]
    construction_iff_rules_by_comparison [of
      "default_fields\<lparr>event_type := PStr ''successful'',
         occurred_before := PDatetime (Datetime 9 (Some (Tzinfo 0 (Some 0) (Some 0)))),
         occurred_after := PDatetime (Naive 2)\<rparr>"]
  by (simp add: default_fields_def auction_type_outcome event_type_outcome occurred_outcome
      new_events_endpoint_outcome request_params_outcome isinstance_str_def py_in_def
      EventType_list_def AuctionType_list_def validation_rules_hold_by_comparison_def
      rule_auction_type_def rule_event_type_def rule_timestamp_def rule_less_than_def
      datetime_eq_def datetime_lt_def same_tzinfo_def)

text \<open>
  C1, as the claim has it, fails where the comparison of the language is not the order of
  the instants. With \<^verbatim>\<open>occurred_after\<close> at 01:30 daylight time and
  \<^verbatim>\<open>occurred_before\<close> at 01:30 standard time of the same \<^verbatim>\<open>tzinfo\<close>
  object, every rule holds, \<^verbatim>\<open>occurred_after\<close> being one hour earlier, and
  construction raises. With \<^verbatim>\<open>occurred_after\<close> at the skipped 02:30 and
  \<^verbatim>\<open>occurred_before\<close> at 03:10, twenty minutes before it, the last rule is
  violated and construction succeeds.
\<close>

theorem construction_iff_rules_counterexample:
  "validation_rules_hold
     (default_fields\<lparr>event_type := PStr ''successful'',
        occurred_before := PDatetime new_york_0130_fold1,
        occurred_after := PDatetime new_york_0130_fold0\<rparr>)
   \<and> new_events_endpoint
     (default_fields\<lparr>event_type := PStr ''successful'',
        occurred_before := PDatetime new_york_0130_fold1,
        occurred_after := PDatetime new_york_0130_fold0\<rparr>) =
       Inl (ValueError
         [Text ''Params occurred_after and occurred_before may not have the same value.'',
          Debug [(''self.occurred_before'', Repr (PDatetime new_york_0130_fold1)),
                 (''self.occurred_after'', Repr (PDatetime new_york_0130_fold0))]])
   \<and> \<not> validation_rules_hold
     (default_fields\<lparr>event_type := PStr ''successful'',
        occurred_before := PDatetime new_york_0310,
        occurred_after := PDatetime new_york_0230_gap\<rparr>)
   \<and> new_events_endpoint
     (default_fields\<lparr>event_type := PStr ''successful'',
        occurred_before := PDatetime new_york_0310,
        occurred_after := PDatetime new_york_0230_gap\<rparr>) =
       Inr (default_fields\<lparr>event_type := PStr ''successful'',
              occurred_before := PDatetime new_york_0310,
              occurred_after := PDatetime new_york_0230_gap\<rparr>)"
  by (simp add: default_fields_def auction_type_outcome event_type_outcome occurred_outcome
      new_events_endpoint_outcome request_params_outcome isinstance_str_def py_in_def
      EventType_list_def validation_rules_hold_def rule_auction_type_def rule_event_type_def
      rule_timestamp_def rule_order_def strictly_earlier_def aware_def instant_def
      datetime_eq_def datetime_lt_def same_tzinfo_def new_york_0130_fold0_def
      new_york_0130_fold1_def new_york_0230_gap_def new_york_0310_def)

subsection \<open>The order of the checks\<close>

lemma fst_validate_param_auction_type [simp]:
  "fst (validate_param_auction_type self) = [Validate_param_auction_type]"
  by (simp add: validate_param_auction_type_def fst_and_then)

lemma fst_validate_param_event_type [simp]:
  "fst (validate_param_event_type self) = [Validate_param_event_type]"
  by (simp add: validate_param_event_type_def fst_and_then)

lemma fst_validate_param_occurred_before [simp]:
  "fst (validate_param_occurred_before self) = [Validate_param_occurred_before]"
  by (simp add: validate_param_occurred_before_def)

lemma fst_validate_param_occurred_after [simp]:
  "fst (validate_param_occurred_after self) = [Validate_param_occurred_after]"
  by (simp add: validate_param_occurred_after_def)

lemma fst_assert_same_value [simp]:
  "fst (assert_param_occurred_before_after_cannot_be_same_value a b) =
     [Assert_param_occurred_before_after_cannot_be_same_value]"
  by (simp add: assert_param_occurred_before_after_cannot_be_same_value_def)

lemma fst_assert_higher [simp]:
  "fst (assert_param_occurred_before_cannot_be_higher_than_occurred_after a b) =
     [Assert_param_occurred_before_cannot_be_higher_than_occurred_after]"
  by (simp add: assert_param_occurred_before_cannot_be_higher_than_occurred_after_def
      split: sum.splits)

lemma request_params_calls:
  "fst (validate_request_params self) =
     (case snd (validate_param_auction_type self) of
        Inl e \<Rightarrow> [Validate_param_auction_type]
      | Inr u \<Rightarrow>
          (case snd (validate_param_event_type self) of
             Inl e \<Rightarrow> [Validate_param_auction_type, Validate_param_event_type]
           | Inr u \<Rightarrow>
               Validate_param_auction_type # Validate_param_event_type #
                 fst (validate_params_occurred_before_and_occurred_after self)))"
  by (simp add: validate_request_params_def fst_and_then snd_and_then split: sum.splits)

lemma occurred_calls:
  "fst (validate_params_occurred_before_and_occurred_after self) =
     Validate_params_occurred_before_and_occurred_after # Validate_param_occurred_before #
       (case snd (validate_param_occurred_before self) of
          Inl e \<Rightarrow> []
        | Inr u \<Rightarrow>
            Validate_param_occurred_after #
              (case snd (validate_param_occurred_after self) of
                 Inl e \<Rightarrow> []
               | Inr u \<Rightarrow>
                   (case (occurred_after self, occurred_before self) of
                      (PDatetime a, PDatetime b) \<Rightarrow>
                        Assert_param_occurred_before_after_cannot_be_same_value #
                          (if datetime_eq a b then []
                           else [Assert_param_occurred_before_cannot_be_higher_than_occurred_after])
                    | _ \<Rightarrow> [])))"
  by (simp add: validate_params_occurred_before_and_occurred_after_def fst_and_then
      snd_and_then assert_param_occurred_before_after_cannot_be_same_value_def
      split: sum.splits pyval.splits)

text \<open>
  C5, as the code has it. The three groups are entered in the order auction type, event
  type, occurred-before/after, and a group is entered only when every group before it has
  returned without an error: validation stops at the first group that fails and raises
  that group's error. Inside the occurred-before/after group it is the same: each of its
  four checks is entered only when the ones before it have passed (and the last two only
  when both values are datetimes).
\<close>

theorem validation_stops_at_first_failure:
  "fst (validate_request_params self) =
     (case snd (validate_param_auction_type self) of
        Inl e \<Rightarrow> [Validate_param_auction_type]
      | Inr u \<Rightarrow>
          (case snd (validate_param_event_type self) of
             Inl e \<Rightarrow> [Validate_param_auction_type, Validate_param_event_type]
           | Inr u \<Rightarrow>
               Validate_param_auction_type # Validate_param_event_type #
                 fst (validate_params_occurred_before_and_occurred_after self)))
   \<and> snd (validate_request_params self) =
     (case snd (validate_param_auction_type self) of
        Inl e \<Rightarrow> Inl e
      | Inr u \<Rightarrow>
          (case snd (validate_param_event_type self) of
             Inl e \<Rightarrow> Inl e
           | Inr u \<Rightarrow> snd (validate_params_occurred_before_and_occurred_after self)))
   \<and> fst (validate_params_occurred_before_and_occurred_after self) =
     Validate_params_occurred_before_and_occurred_after # Validate_param_occurred_before #
       (case snd (validate_param_occurred_before self) of
          Inl e \<Rightarrow> []
        | Inr u \<Rightarrow>
            Validate_param_occurred_after #
              (case snd (validate_param_occurred_after self) of
                 Inl e \<Rightarrow> []
               | Inr u \<Rightarrow>
                   (case (occurred_after self, occurred_before self) of
                      (PDatetime a, PDatetime b) \<Rightarrow>
                        Assert_param_occurred_before_after_cannot_be_same_value #
                          (if datetime_eq a b then []
                           else [Assert_param_occurred_before_cannot_be_higher_than_occurred_after])
                    | _ \<Rightarrow> [])))"
  using request_params_calls [of self] request_params_outcome [of self] occurred_calls [of self]
  by (intro conjI)

theorem validation_stops_at_first_failure_witness:
  "fst (validate_request_params
     (default_fields\<lparr>event_type := PStr ''successful'',
        occurred_before := PDatetime (Naive 6), occurred_after := PDatetime (Naive 5)\<rparr>)) =
     [Validate_param_auction_type, Validate_param_event_type,
      Validate_params_occurred_before_and_occurred_after,
      Validate_param_occurred_before, Validate_param_occurred_after,
      Assert_param_occurred_before_after_cannot_be_same_value,
      Assert_param_occurred_before_cannot_be_higher_than_occurred_after]
   \<and> snd (validate_request_params
     (default_fields\<lparr>event_type := PStr ''successful'',
        occurred_before := PDatetime (Naive 6), occurred_after := PDatetime (Naive 5)\<rparr>)) =
     Inr ()
   \<and> fst (validate_request_params
     (default_fields\<lparr>event_type := PStr ''randomstr'', occurred_before := PBool True\<rparr>)) =
     [Validate_param_auction_type, Validate_param_event_type]"
  using
    validation_stops_at_first_failure [of
      "default_fields\<lparr>event_type := PStr ''successful'',
         occurred_before := PDatetime (Naive 6), occurred_after := PDatetime (Naive 5)\<rparr>"]
    validation_stops_at_first_failure [of
      "default_fields\<lparr>event_type := PStr ''randomstr'', occurred_before := PBool True\<rparr>"]
  by (simp add: default_fields_def auction_type_outcome event_type_outcome occurred_outcome
      validate_param_occurred_before_def validate_param_occurred_after_def
      isinstance_str_def py_in_def EventType_list_def)

text \<open>
  C5, as the claim has it, fails: with an \<^verbatim>\<open>auction_type\<close> that is a string outside
  the enum, \<^verbatim>\<open>event_type\<close> left at \<^verbatim>\<open>None\<close> and a boolean for
  \<^verbatim>\<open>occurred_before\<close>, each of the three groups would raise when run by itself, yet
  validation enters the auction-type group only and raises its error.
\<close>

theorem later_groups_not_run_counterexample:
  "snd (validate_param_event_type
      (default_fields\<lparr>auction_type := PStr ''randomstr'', occurred_before := PBool True\<rparr>)) =
     Inl (TypeError
       [Text ''Invalid event_type type. Must be str or EventType Enum.'',
        Debug [(''self.event_type'', Repr PNone)]])
   \<and> snd (validate_params_occurred_before_and_occurred_after
      (default_fields\<lparr>auction_type := PStr ''randomstr'', occurred_before := PBool True\<rparr>)) =
     Inl (TypeError
       [Text ''Invalid occurred_before type. Must be instance of datetime.'',
        Debug [(''type(self.occurred_before)'', ReprType BoolT)]])
   \<and> validate_request_params
      (default_fields\<lparr>auction_type := PStr ''randomstr'', occurred_before := PBool True\<rparr>) =
     ([Validate_param_auction_type],
      Inl (ValueError
        [Text ''Invalid auction_type value. Must be str value from AuctionType Enum.'',
         Debug [(''self.auction_type'', Repr (PStr ''randomstr''))]]))"
proof -
  have "validate_request_params q = (fst (validate_request_params q), snd (validate_request_params q))"
    for q
    by simp
  then show ?thesis
    by (simp add: default_fields_def request_params_calls request_params_outcome
        auction_type_outcome event_type_outcome occurred_outcome
        isinstance_str_def py_in_def AuctionType_list_def prod_eq_iff)
qed

subsection \<open>What the validation errors carry\<close>

lemma auction_type_error_carries:
  "snd (validate_param_auction_type self) = Inl e \<Longrightarrow>
     carries e ''self.auction_type'' (Repr (auction_type self))"
  by (auto simp: auction_type_outcome carries_def split: if_splits)

lemma event_type_error_carries:
  "snd (validate_param_event_type self) = Inl e \<Longrightarrow>
     carries e ''self.event_type'' (Repr (event_type self))"
  by (auto simp: event_type_outcome carries_def split: if_splits)

lemma occurred_before_error_carries:
  "snd (validate_param_occurred_before self) = Inl e \<Longrightarrow>
     carries e ''type(self.occurred_before)'' (ReprType (type_of (occurred_before self)))
     \<and> carried_values e = []"
  by (auto simp: validate_param_occurred_before_def carries_def carried_values_def
      split: if_splits)

lemma occurred_after_error_carries:
  "snd (validate_param_occurred_after self) = Inl e \<Longrightarrow>
     carries e ''type(self.occurred_after)'' (ReprType (type_of (occurred_after self)))
     \<and> carried_values e = []"
  by (auto simp: validate_param_occurred_after_def carries_def carried_values_def
      split: if_splits)

lemma same_value_error_carries:
  "snd (assert_param_occurred_before_after_cannot_be_same_value a b) = Inl e \<Longrightarrow>
     carries e ''self.occurred_before'' (Repr (PDatetime b))
     \<and> carries e ''self.occurred_after'' (Repr (PDatetime a))"
  by (auto simp: assert_param_occurred_before_after_cannot_be_same_value_def carries_def
      split: if_splits)

lemma higher_error_carries:
  "snd (assert_param_occurred_before_cannot_be_higher_than_occurred_after a b) = Inl e \<Longrightarrow>
     carries e ''self.occurred_before'' (Repr (PDatetime b))
       \<and> carries e ''self.occurred_after'' (Repr (PDatetime a))
     \<or> e = TypeError [Text ''can't compare offset-naive and offset-aware datetimes'']"
  by (auto simp: assert_param_occurred_before_cannot_be_higher_than_occurred_after_def
      carries_def dest: datetime_lt_raises split: if_splits sum.splits)

lemma datetime_lt_error: "datetime_lt a b = Inl e \<Longrightarrow> \<not> is_ValueKind e"
  by (auto dest: datetime_lt_raises)

lemma occurred_error_carries:
  assumes "snd (validate_params_occurred_before_and_occurred_after self) = Inl e"
  shows "carries e ''type(self.occurred_before)'' (ReprType (type_of (occurred_before self)))
     \<or> carries e ''type(self.occurred_after)'' (ReprType (type_of (occurred_after self)))
     \<or> carries e ''self.occurred_before'' (Repr (occurred_before self))
         \<and> carries e ''self.occurred_after'' (Repr (occurred_after self))
     \<or> e = TypeError [Text ''can't compare offset-naive and offset-aware datetimes'']"
proof (cases "snd (validate_param_occurred_before self)")
  case (Inl e')
  with assms have "e' = e"
    by (simp add: validate_params_occurred_before_and_occurred_after_def snd_and_then)
  with Inl show ?thesis
    using occurred_before_error_carries [of self e] by simp
next
  case before: (Inr u)
  show ?thesis
  proof (cases "snd (validate_param_occurred_after self)")
    case (Inl e')
    with assms before have "e' = e"
      by (simp add: validate_params_occurred_before_and_occurred_after_def snd_and_then)
    with Inl show ?thesis
      using occurred_after_error_carries [of self e] by simp
  next
    case after: (Inr u')
    from assms before after obtain a b
      where ab: "occurred_after self = PDatetime a" "occurred_before self = PDatetime b"
        and e: "snd (and_then
            (assert_param_occurred_before_after_cannot_be_same_value a b)
            (assert_param_occurred_before_cannot_be_higher_than_occurred_after a b)) = Inl e"
      by (auto simp: validate_params_occurred_before_and_occurred_after_def snd_and_then
          split: pyval.splits)
    show ?thesis
    proof (cases "snd (assert_param_occurred_before_after_cannot_be_same_value a b)")
      case (Inl e')
      with e have "e' = e"
        by (simp add: snd_and_then)
      with Inl ab show ?thesis
        using same_value_error_carries [of a b e] by simp
    next
      case (Inr u'')
      with e have "snd (assert_param_occurred_before_cannot_be_higher_than_occurred_after a b)
          = Inl e"
        by (simp add: snd_and_then)
      with ab show ?thesis
        using higher_error_carries [of a b e] by auto
    qed
  qed
qed

text \<open>
  C9, as the code has it. An error of the auction-type or of the event-type check carries
  the field's name and its value. In the occurred-before/after check, the
  \<^verbatim>\<open>TypeError\<close> for a value that is not a datetime carries the field's name and the
  type of the value, and no value; the \<^verbatim>\<open>ValueError\<close> for a wrong pair carries the
  names and the values of both fields. One of these, or Python's own error for comparing
  a naive with an aware datetime, is what a failed construction raises.
\<close>

theorem validation_error_payload:
  "(snd (validate_param_auction_type self) = Inl e \<longrightarrow>
      carries e ''self.auction_type'' (Repr (auction_type self)))
   \<and> (snd (validate_param_event_type self) = Inl e \<longrightarrow>
      carries e ''self.event_type'' (Repr (event_type self)))
   \<and> (snd (validate_param_occurred_before self) = Inl e \<longrightarrow>
      carries e ''type(self.occurred_before)'' (ReprType (type_of (occurred_before self)))
      \<and> carried_values e = [])
   \<and> (snd (validate_param_occurred_after self) = Inl e \<longrightarrow>
      carries e ''type(self.occurred_after)'' (ReprType (type_of (occurred_after self)))
      \<and> carried_values e = [])
   \<and> (snd (validate_params_occurred_before_and_occurred_after self) = Inl e
        \<and> is_ValueKind e \<longrightarrow>
      carries e ''self.occurred_before'' (Repr (occurred_before self))
      \<and> carries e ''self.occurred_after'' (Repr (occurred_after self)))
   \<and> (new_events_endpoint self = Inl e \<longrightarrow>
      carries e ''self.auction_type'' (Repr (auction_type self))
      \<or> carries e ''self.event_type'' (Repr (event_type self))
      \<or> carries e ''type(self.occurred_before)'' (ReprType (type_of (occurred_before self)))
      \<or> carries e ''type(self.occurred_after)'' (ReprType (type_of (occurred_after self)))
      \<or> carries e ''self.occurred_before'' (Repr (occurred_before self))
          \<and> carries e ''self.occurred_after'' (Repr (occurred_after self))
      \<or> e = TypeError [Text ''can't compare offset-naive and offset-aware datetimes''])"
proof (intro conjI impI)
  assume "snd (validate_param_auction_type self) = Inl e"
  then show "carries e ''self.auction_type'' (Repr (auction_type self))"
    by (rule auction_type_error_carries)
next
  assume "snd (validate_param_event_type self) = Inl e"
  then show "carries e ''self.event_type'' (Repr (event_type self))"
    by (rule event_type_error_carries)
next
  assume h: "snd (validate_param_occurred_before self) = Inl e"
  show "carries e ''type(self.occurred_before)'' (ReprType (type_of (occurred_before self)))"
    using occurred_before_error_carries [OF h] by simp
  show "carried_values e = []"
    using occurred_before_error_carries [OF h] by simp
next
  assume h: "snd (validate_param_occurred_after self) = Inl e"
  show "carries e ''type(self.occurred_after)'' (ReprType (type_of (occurred_after self)))"
    using occurred_after_error_carries [OF h] by simp
  show "carried_values e = []"
    using occurred_after_error_carries [OF h] by simp
next
  assume h: "snd (validate_params_occurred_before_and_occurred_after self) = Inl e
    \<and> is_ValueKind e"
  then have v: "carries e ''self.occurred_before'' (Repr (occurred_before self))
      \<and> carries e ''self.occurred_after'' (Repr (occurred_after self))"
    by (auto simp: occurred_outcome carries_def dest: datetime_lt_error
        split: if_splits pyval.splits sum.splits)
  from v show "carries e ''self.occurred_before'' (Repr (occurred_before self))" by simp
  from v show "carries e ''self.occurred_after'' (Repr (occurred_after self))" by simp
next
  assume h: "new_events_endpoint self = Inl e"
  show "carries e ''self.auction_type'' (Repr (auction_type self))
      \<or> carries e ''self.event_type'' (Repr (event_type self))
      \<or> carries e ''type(self.occurred_before)'' (ReprType (type_of (occurred_before self)))
      \<or> carries e ''type(self.occurred_after)'' (ReprType (type_of (occurred_after self)))
      \<or> carries e ''self.occurred_before'' (Repr (occurred_before self))
          \<and> carries e ''self.occurred_after'' (Repr (occurred_after self))
      \<or> e = TypeError [Text ''can't compare offset-naive and offset-aware datetimes'']"
  proof (cases "snd (validate_param_auction_type self)")
    case (Inl e')
    with h have "e' = e"
      by (simp add: new_events_endpoint_outcome request_params_outcome)
    with Inl show ?thesis
      using auction_type_error_carries [of self e] by simp
  next
    case auction: (Inr u)
    show ?thesis
    proof (cases "snd (validate_param_event_type self)")
      case (Inl e')
      with h auction have "e' = e"
        by (simp add: new_events_endpoint_outcome request_params_outcome)
      with Inl show ?thesis
        using event_type_error_carries [of self e] by simp
    next
      case (Inr u')
      with h auction
      have "snd (validate_params_occurred_before_and_occurred_after self) = Inl e"
        by (simp add: new_events_endpoint_outcome request_params_outcome split: sum.splits)
      from occurred_error_carries [OF this] show ?thesis
        by blast
    qed
  qed
qed

theorem validation_error_payload_witness:
  "carries
     (ValueError
        [Text ''Invalid auction_type value. Must be str value from AuctionType Enum.'',
         Debug [(''self.auction_type'', Repr (PStr ''randomstr''))]])
     ''self.auction_type'' (Repr (PStr ''randomstr''))
   \<and> new_events_endpoint (default_fields\<lparr>auction_type := PStr ''randomstr''\<rparr>) =
     Inl (ValueError
        [Text ''Invalid auction_type value. Must be str value from AuctionType Enum.'',
         Debug [(''self.auction_type'', Repr (PStr ''randomstr''))]])"
  using validation_error_payload [of "default_fields\<lparr>auction_type := PStr ''randomstr''\<rparr>"
      "ValueError
        [Text ''Invalid auction_type value. Must be str value from AuctionType Enum.'',
         Debug [(''self.auction_type'', Repr (PStr ''randomstr''))]]"]
  by (simp add: default_fields_def auction_type_outcome new_events_endpoint_outcome
      request_params_outcome isinstance_str_def py_in_def AuctionType_list_def carries_def)

text \<open>
  C9, as the claim has it, fails for the type errors of \<^verbatim>\<open>occurred_before\<close> and
  \<^verbatim>\<open>occurred_after\<close>: the booleans \<^verbatim>\<open>True\<close> and \<^verbatim>\<open>False\<close> give the
  very same exception, which prints the type \<^verbatim>\<open>bool\<close> and no value.
\<close>

theorem occurred_type_error_without_value_counterexample:
  "new_events_endpoint
     (default_fields\<lparr>event_type := PStr ''successful'', occurred_before := PBool True\<rparr>) =
     Inl (TypeError
       [Text ''Invalid occurred_before type. Must be instance of datetime.'',
        Debug [(''type(self.occurred_before)'', ReprType BoolT)]])
   \<and> new_events_endpoint
     (default_fields\<lparr>event_type := PStr ''successful'', occurred_before := PBool False\<rparr>) =
     Inl (TypeError
       [Text ''Invalid occurred_before type. Must be instance of datetime.'',
        Debug [(''type(self.occurred_before)'', ReprType BoolT)]])
   \<and> carried_values (TypeError
       [Text ''Invalid occurred_before type. Must be instance of datetime.'',
        Debug [(''type(self.occurred_before)'', ReprType BoolT)]]) = []"
  by (simp add: default_fields_def auction_type_outcome event_type_outcome occurred_outcome
      new_events_endpoint_outcome request_params_outcome isinstance_str_def py_in_def
      EventType_list_def carried_values_def)

subsection \<open>The equal-values check is redundant\<close>

lemma occurred_without_same_value_outcome:
  "snd (validate_params_occurred_without_same_value_check self) =
     (if \<not> (\<exists>a b. occurred_after self = PDatetime a \<and> occurred_before self = PDatetime b
                 \<and> datetime_eq a b)
      then snd (validate_params_occurred_before_and_occurred_after self)
      else Inl (ValueError
        [Text ''Param occurred_before cannot be higher than param occurred_after.'',
         Debug [(''self.occurred_before'', Repr (occurred_before self)),
                (''self.occurred_after'', Repr (occurred_after self))]]))"
  by (auto simp: validate_params_occurred_without_same_value_check_def
      validate_params_occurred_before_and_occurred_after_def
      validate_param_occurred_before_def validate_param_occurred_after_def
      assert_param_occurred_before_after_cannot_be_same_value_def
      assert_param_occurred_before_cannot_be_higher_than_occurred_after_def
      snd_and_then datetime_eq_not_lt split: pyval.splits sum.splits)

lemma without_same_value_ignores_http_response:
  "validate_request_params_without_same_value_check (self\<lparr>http_response := r\<rparr>) =
     validate_request_params_without_same_value_check self"
  by (simp add: validate_request_params_without_same_value_check_def
      validate_param_auction_type_def validate_param_event_type_def
      validate_params_occurred_without_same_value_check_def
      validate_param_occurred_before_def validate_param_occurred_after_def)

lemma new_without_same_value_outcome:
  "new_events_endpoint_without_same_value_check kwargs =
     (case snd (validate_param_auction_type kwargs) of
        Inl e \<Rightarrow> Inl e
      | Inr u \<Rightarrow>
          (case snd (validate_param_event_type kwargs) of
             Inl e \<Rightarrow> Inl e
           | Inr u \<Rightarrow>
               (case snd (validate_params_occurred_without_same_value_check kwargs) of
                  Inl e \<Rightarrow> Inl e
                | Inr u \<Rightarrow> Inr (kwargs\<lparr>http_response := None\<rparr>))))"
proof -
  have "snd (validate_request_params_without_same_value_check kwargs) =
      (case snd (validate_param_auction_type kwargs) of
         Inl e \<Rightarrow> Inl e
       | Inr u \<Rightarrow>
           (case snd (validate_param_event_type kwargs) of
              Inl e \<Rightarrow> Inl e
            | Inr u \<Rightarrow> snd (validate_params_occurred_without_same_value_check kwargs)))"
    by (simp add: validate_request_params_without_same_value_check_def snd_and_then
        split: sum.splits)
  then show ?thesis
    unfolding new_events_endpoint_without_same_value_check_def Let_def
      without_same_value_ignores_http_response
    by (simp split: sum.splits)
qed

lemma new_events_endpoint_by_groups:
  "new_events_endpoint kwargs =
     (case snd (validate_param_auction_type kwargs) of
        Inl e \<Rightarrow> Inl e
      | Inr u \<Rightarrow>
          (case snd (validate_param_event_type kwargs) of
             Inl e \<Rightarrow> Inl e
           | Inr u \<Rightarrow>
               (case snd (validate_params_occurred_before_and_occurred_after kwargs) of
                  Inl e \<Rightarrow> Inl e
                | Inr u \<Rightarrow> Inr (kwargs\<lparr>http_response := None\<rparr>))))"
  by (simp add: new_events_endpoint_outcome request_params_outcome split: sum.splits)

lemma same_value_check_redundant_unless_equal:
  assumes "\<not> (\<exists>a b. occurred_after kwargs = PDatetime a \<and> occurred_before kwargs = PDatetime b
              \<and> datetime_eq a b)"
  shows "new_events_endpoint_without_same_value_check kwargs = new_events_endpoint kwargs"
proof -
  have "snd (validate_params_occurred_without_same_value_check kwargs) =
      snd (validate_params_occurred_before_and_occurred_after kwargs)"
    by (simp only: occurred_without_same_value_outcome assms not_False_eq_True if_True)
  then show ?thesis
    by (simp only: new_events_endpoint_by_groups new_without_same_value_outcome)
qed

lemma equal_values_rejected_by_both:
  assumes "occurred_after kwargs = PDatetime a" and "occurred_before kwargs = PDatetime b"
    and "datetime_eq a b"
  shows "(\<exists>e. new_events_endpoint kwargs = Inl e)
     \<and> (\<exists>e. new_events_endpoint_without_same_value_check kwargs = Inl e)"
  using assms
  by (cases "snd (validate_param_auction_type kwargs)";
      cases "snd (validate_param_event_type kwargs)")
    (simp_all add: new_events_endpoint_by_groups new_without_same_value_outcome
      occurred_without_same_value_outcome occurred_outcome)

text \<open>
  C10. With \<^verbatim>\<open>occurred_before\<close> and \<^verbatim>\<open>occurred_after\<close> both datetimes, the
  validator without the equal-values check accepts exactly the inputs the implemented one
  accepts, returning the same object, and rejects exactly the inputs it rejects: equal
  datetimes are not strictly ordered. The two raise the same error unless the datetimes
  are equal, and for equal datetimes the occurred-before/after check, reached in both,
  raises a \<^verbatim>\<open>ValueError\<close> in both, with a different message.
\<close>

theorem same_value_check_redundant:
  "occurred_after kwargs = PDatetime a \<and> occurred_before kwargs = PDatetime b \<longrightarrow>
     (\<forall>self. (new_events_endpoint_without_same_value_check kwargs = Inr self)
         = (new_events_endpoint kwargs = Inr self))
     \<and> ((\<exists>e. new_events_endpoint_without_same_value_check kwargs = Inl e)
         = (\<exists>e. new_events_endpoint kwargs = Inl e))
     \<and> (datetime_eq a b \<longrightarrow> datetime_lt a b = Inr False)
     \<and> (\<not> datetime_eq a b \<longrightarrow>
          new_events_endpoint_without_same_value_check kwargs = new_events_endpoint kwargs)
     \<and> (datetime_eq a b \<longrightarrow>
          snd (validate_params_occurred_before_and_occurred_after kwargs) =
            Inl (ValueError
              [Text ''Params occurred_after and occurred_before may not have the same value.'',
               Debug [(''self.occurred_before'', Repr (PDatetime b)),
                      (''self.occurred_after'', Repr (PDatetime a))]])
          \<and> snd (validate_params_occurred_without_same_value_check kwargs) =
            Inl (ValueError
              [Text ''Param occurred_before cannot be higher than param occurred_after.'',
               Debug [(''self.occurred_before'', Repr (PDatetime b)),
                      (''self.occurred_after'', Repr (PDatetime a))]]))"
proof (intro impI)
  assume ab: "occurred_after kwargs = PDatetime a \<and> occurred_before kwargs = PDatetime b"
  show "(\<forall>self. (new_events_endpoint_without_same_value_check kwargs = Inr self)
         = (new_events_endpoint kwargs = Inr self))
     \<and> ((\<exists>e. new_events_endpoint_without_same_value_check kwargs = Inl e)
         = (\<exists>e. new_events_endpoint kwargs = Inl e))
     \<and> (datetime_eq a b \<longrightarrow> datetime_lt a b = Inr False)
     \<and> (\<not> datetime_eq a b \<longrightarrow>
          new_events_endpoint_without_same_value_check kwargs = new_events_endpoint kwargs)
     \<and> (datetime_eq a b \<longrightarrow>
          snd (validate_params_occurred_before_and_occurred_after kwargs) =
            Inl (ValueError
              [Text ''Params occurred_after and occurred_before may not have the same value.'',
               Debug [(''self.occurred_before'', Repr (PDatetime b)),
                      (''self.occurred_after'', Repr (PDatetime a))]])
          \<and> snd (validate_params_occurred_without_same_value_check kwargs) =
            Inl (ValueError
              [Text ''Param occurred_before cannot be higher than param occurred_after.'',
               Debug [(''self.occurred_before'', Repr (PDatetime b)),
                      (''self.occurred_after'', Repr (PDatetime a))]]))"
  proof (cases "datetime_eq a b")
    case True
    with ab have rej: "(\<exists>e. new_events_endpoint kwargs = Inl e)
        \<and> (\<exists>e. new_events_endpoint_without_same_value_check kwargs = Inl e)"
      using equal_values_rejected_by_both [of kwargs a b] by simp
    then have "(\<forall>self. (new_events_endpoint_without_same_value_check kwargs = Inr self)
         = (new_events_endpoint kwargs = Inr self))"
      by auto
    moreover from rej
    have "(\<exists>e. new_events_endpoint_without_same_value_check kwargs = Inl e)
         = (\<exists>e. new_events_endpoint kwargs = Inl e)"
      by simp
    moreover from True ab
    have "snd (validate_params_occurred_before_and_occurred_after kwargs) =
        Inl (ValueError
          [Text ''Params occurred_after and occurred_before may not have the same value.'',
           Debug [(''self.occurred_before'', Repr (PDatetime b)),
                  (''self.occurred_after'', Repr (PDatetime a))]])"
      by (simp add: occurred_outcome)
    moreover from True ab
    have "snd (validate_params_occurred_without_same_value_check kwargs) =
        Inl (ValueError
          [Text ''Param occurred_before cannot be higher than param occurred_after.'',
           Debug [(''self.occurred_before'', Repr (PDatetime b)),
                  (''self.occurred_after'', Repr (PDatetime a))]])"
      by (simp add: occurred_without_same_value_outcome)
    ultimately show ?thesis
      using True by (simp add: datetime_eq_not_lt)
  next
    case False
    with ab have "new_events_endpoint_without_same_value_check kwargs
        = new_events_endpoint kwargs"
      by (intro same_value_check_redundant_unless_equal) simp
    with False show ?thesis
      by simp
  qed
qed

theorem same_value_check_redundant_witness:
  "new_events_endpoint_without_same_value_check
     (default_fields\<lparr>event_type := PStr ''successful'',
        occurred_before := PDatetime (Naive 5), occurred_after := PDatetime (Naive 5)\<rparr>) =
     Inl (ValueError
       [Text ''Param occurred_before cannot be higher than param occurred_after.'',
        Debug [(''self.occurred_before'', Repr (PDatetime (Naive 5))),
               (''self.occurred_after'', Repr (PDatetime (Naive 5)))]])
   \<and> new_events_endpoint
     (default_fields\<lparr>event_type := PStr ''successful'',
        occurred_before := PDatetime (Naive 5), occurred_after := PDatetime (Naive 5)\<rparr>) =
     Inl (ValueError
       [Text ''Params occurred_after and occurred_before may not have the same value.'',
        Debug [(''self.occurred_before'', Repr (PDatetime (Naive 5))),
               (''self.occurred_after'', Repr (PDatetime (Naive 5)))]])
   \<and> new_events_endpoint_without_same_value_check
     (default_fields\<lparr>event_type := PStr ''successful'',
        occurred_before := PDatetime (Naive 6), occurred_after := PDatetime (Naive 5)\<rparr>) =
     new_events_endpoint
     (default_fields\<lparr>event_type := PStr ''successful'',
        occurred_before := PDatetime (Naive 6), occurred_after := PDatetime (Naive 5)\<rparr>)"
  using
    same_value_check_redundant [of
      "default_fields\<lparr>event_type := PStr ''successful'',
         occurred_before := PDatetime (Naive 5), occurred_after := PDatetime (Naive 5)\<rparr>"
      "Naive 5" "Naive 5"]
    same_value_check_redundant [of
      "default_fields\<lparr>event_type := PStr ''successful'',
         occurred_before := PDatetime (Naive 6), occurred_after := PDatetime (Naive 5)\<rparr>"
      "Naive 5" "Naive 6"]
  by (simp add: default_fields_def auction_type_outcome event_type_outcome occurred_outcome
      occurred_without_same_value_outcome new_events_endpoint_by_groups
      new_without_same_value_outcome isinstance_str_def py_in_def EventType_list_def)

subsection \<open>The request, the response and the life of an object\<close>

lemma get_request_with_client_params:
  "client_params self = Some cp \<Longrightarrow>
     get_request server events_url self log =
       (case server events_url
           [(''offset'', PInt (offset cp)),
            (''limit'', PInt (limit cp)),
            (''asset_contract_address'', asset_contract_address self),
            (''event_type'', event_type self),
            (''only_opensea'', only_opensea self),
            (''collection_slug'', collection_slug self),
            (''token_id'', token_id self),
            (''account_address'', account_address self),
            (''auction_type'', auction_type self),
            (''occurred_before'', occurred_before self),
            (''occurred_after'', occurred_after self)] of
          Inl e \<Rightarrow> Inl e
        | Inr r \<Rightarrow> Inr (self\<lparr>http_response := Some r\<rparr>, r),
        log @ [(events_url,
           [(''offset'', PInt (offset cp)),
            (''limit'', PInt (limit cp)),
            (''asset_contract_address'', asset_contract_address self),
            (''event_type'', event_type self),
            (''only_opensea'', only_opensea self),
            (''collection_slug'', collection_slug self),
            (''token_id'', token_id self),
            (''account_address'', account_address self),
            (''auction_type'', auction_type self),
            (''occurred_before'', occurred_before self),
            (''occurred_after'', occurred_after self)])])"
  by (simp add: get_request_def base_get_request_def url_def Let_def split: sum.splits)

lemma get_request_without_client_params:
  "client_params self = None \<Longrightarrow>
     snd (get_request server events_url self log) = log
     \<and> (\<exists>e. fst (get_request server events_url self log) = Inl e)"
  by (simp add: get_request_def)

lemma query_parameter_names:
  "set (map fst
     [(''offset'', v1), (''limit'', v2), (''asset_contract_address'', v3),
      (''event_type'', v4), (''only_opensea'', v5), (''collection_slug'', v6),
      (''token_id'', v7), (''account_address'', v8), (''auction_type'', v9),
      (''occurred_before'', v10), (''occurred_after'', v11)]) =
   {''offset'', ''limit'', ''asset_contract_address'', ''event_type'', ''only_opensea'',
    ''collection_slug'', ''token_id'', ''account_address'', ''auction_type'',
    ''occurred_before'', ''occurred_after''}"
  by simp

text \<open>
  C6. For an object that construction has returned and that has its client parameters,
  issuing the request sends one GET to the address of the events endpoint. Its query
  parameters are the eleven named ones, each once: \<^verbatim>\<open>offset\<close> and
  \<^verbatim>\<open>limit\<close> from the client parameters, every other value the object's field,
  unchanged. The response the server gives is stored on the object and returned; an error
  of the transport is passed on.
\<close>

theorem get_request_contract:
  "new_events_endpoint kwargs = Inr self \<and> client_params self = Some cp \<longrightarrow>
     (\<exists>ps.
        ps = [(''offset'', PInt (offset cp)),
              (''limit'', PInt (limit cp)),
              (''asset_contract_address'', asset_contract_address self),
              (''event_type'', event_type self),
              (''only_opensea'', only_opensea self),
              (''collection_slug'', collection_slug self),
              (''token_id'', token_id self),
              (''account_address'', account_address self),
              (''auction_type'', auction_type self),
              (''occurred_before'', occurred_before self),
              (''occurred_after'', occurred_after self)]
        \<and> set (map fst ps) =
            {''offset'', ''limit'', ''asset_contract_address'', ''event_type'',
             ''only_opensea'', ''collection_slug'', ''token_id'', ''account_address'',
             ''auction_type'', ''occurred_before'', ''occurred_after''}
        \<and> length ps = 11
        \<and> snd (get_request server events_url self log) = log @ [(events_url, ps)]
        \<and> (\<forall>r. server events_url ps = Inr r \<longrightarrow>
              fst (get_request server events_url self log) =
                Inr (self\<lparr>http_response := Some r\<rparr>, r))
        \<and> (\<forall>e. server events_url ps = Inl e \<longrightarrow>
              fst (get_request server events_url self log) = Inl e))"
proof (intro impI)
  assume h: "new_events_endpoint kwargs = Inr self \<and> client_params self = Some cp"
  then have cp: "client_params self = Some cp"
    by simp
  show "\<exists>ps.
        ps = [(''offset'', PInt (offset cp)),
              (''limit'', PInt (limit cp)),
              (''asset_contract_address'', asset_contract_address self),
              (''event_type'', event_type self),
              (''only_opensea'', only_opensea self),
              (''collection_slug'', collection_slug self),
              (''token_id'', token_id self),
              (''account_address'', account_address self),
              (''auction_type'', auction_type self),
              (''occurred_before'', occurred_before self),
              (''occurred_after'', occurred_after self)]
        \<and> set (map fst ps) =
            {''offset'', ''limit'', ''asset_contract_address'', ''event_type'',
             ''only_opensea'', ''collection_slug'', ''token_id'', ''account_address'',
             ''auction_type'', ''occurred_before'', ''occurred_after''}
        \<and> length ps = 11
        \<and> snd (get_request server events_url self log) = log @ [(events_url, ps)]
        \<and> (\<forall>r. server events_url ps = Inr r \<longrightarrow>
              fst (get_request server events_url self log) =
                Inr (self\<lparr>http_response := Some r\<rparr>, r))
        \<and> (\<forall>e. server events_url ps = Inl e \<longrightarrow>
              fst (get_request server events_url self log) = Inl e)"
    unfolding get_request_with_client_params [OF cp]
    by (intro exI conjI allI impI, rule refl) (simp_all only: query_parameter_names, simp_all)
qed

theorem get_request_contract_witness:
  "new_events_endpoint
     (default_fields\<lparr>client_params := Some \<lparr>offset = 0, limit = 5\<rparr>,
        asset_contract_address := PStr ''0xb47e'', event_type := PEventType SUCCESSFUL\<rparr>) =
     Inr (default_fields\<lparr>client_params := Some \<lparr>offset = 0, limit = 5\<rparr>,
        asset_contract_address := PStr ''0xb47e'', event_type := PEventType SUCCESSFUL\<rparr>)
   \<and> get_request (\<lambda>u ps. Inr \<lparr>json_result = Inr (JObj [(''asset_events'', JArr [])])\<rparr>)
       ''https://api.opensea.io/api/v1/events''
       (default_fields\<lparr>client_params := Some \<lparr>offset = 0, limit = 5\<rparr>,
          asset_contract_address := PStr ''0xb47e'', event_type := PEventType SUCCESSFUL\<rparr>)
       [] =
     (Inr (default_fields\<lparr>client_params := Some \<lparr>offset = 0, limit = 5\<rparr>,
             asset_contract_address := PStr ''0xb47e'', event_type := PEventType SUCCESSFUL,
             http_response := Some \<lparr>json_result = Inr (JObj [(''asset_events'', JArr [])])\<rparr>\<rparr>,
           \<lparr>json_result = Inr (JObj [(''asset_events'', JArr [])])\<rparr>),
      [(''https://api.opensea.io/api/v1/events'',
        [(''offset'', PInt 0), (''limit'', PInt 5),
         (''asset_contract_address'', PStr ''0xb47e''),
         (''event_type'', PEventType SUCCESSFUL),
         (''only_opensea'', PBool False),
         (''collection_slug'', PNone),
         (''token_id'', PNone),
         (''account_address'', PNone),
         (''auction_type'', PNone),
         (''occurred_before'', PNone),
         (''occurred_after'', PNone)])])"
  using get_request_contract [of
      "default_fields\<lparr>client_params := Some \<lparr>offset = 0, limit = 5\<rparr>,
         asset_contract_address := PStr ''0xb47e'', event_type := PEventType SUCCESSFUL\<rparr>"
      "default_fields\<lparr>client_params := Some \<lparr>offset = 0, limit = 5\<rparr>,
         asset_contract_address := PStr ''0xb47e'', event_type := PEventType SUCCESSFUL\<rparr>"
      "\<lparr>offset = 0, limit = 5\<rparr>"
      "\<lambda>u ps. Inr \<lparr>json_result = Inr (JObj [(''asset_events'', JArr [])])\<rparr>"
      "''https://api.opensea.io/api/v1/events''" "[]"]
  by (simp add: default_fields_def get_request_def base_get_request_def url_def
      auction_type_outcome event_type_outcome occurred_outcome
      new_events_endpoint_outcome request_params_outcome isinstance_str_def py_in_def
      EventType_list_def)

text \<open>
  C7. When the object holds a response whose decoded body is a JSON object with an array
  under \<^verbatim>\<open>asset_events\<close>, the parsed result is the external parser mapped over that
  array: as many records as elements, the i-th record the parse of the i-th element.
\<close>

theorem parsed_http_response_maps_events:
  "http_response self = Some r \<and> json_result r = Inr (JObj body)
     \<and> map_of body ''asset_events'' = Some (JArr events) \<longrightarrow>
   (\<exists>records. parsed_http_response EventResponse self = Inr records
      \<and> records = map EventResponse events
      \<and> length records = length events
      \<and> (\<forall>i. i < length events \<longrightarrow> records ! i = EventResponse (events ! i)))"
  by (simp add: parsed_http_response_def)

theorem parsed_http_response_maps_events_witness:
  "parsed_http_response (\<lambda>event. (event, True))
     (default_fields\<lparr>http_response := Some \<lparr>json_result =
        Inr (JObj [(''next'', JNull),
                   (''asset_events'', JArr [JStr ''first'', JNum 2, JObj []])])\<rparr>\<rparr>) =
     Inr [(JStr ''first'', True), (JNum 2, True), (JObj [], True)]"
  using parsed_http_response_maps_events [of
      "default_fields\<lparr>http_response := Some \<lparr>json_result =
         Inr (JObj [(''next'', JNull),
                    (''asset_events'', JArr [JStr ''first'', JNum 2, JObj []])])\<rparr>\<rparr>"
      "\<lparr>json_result =
         Inr (JObj [(''next'', JNull),
                    (''asset_events'', JArr [JStr ''first'', JNum 2, JObj []])])\<rparr>"
      "[(''next'', JNull), (''asset_events'', JArr [JStr ''first'', JNum 2, JObj []])]"
      "[JStr ''first'', JNum 2, JObj []]" "\<lambda>event. (event, True)"]
  by (simp add: default_fields_def)

text \<open>
  C8. When validation raises, construction raises that error and the life of the object
  ends there: no request is sent. Conversely, whenever constructing and issuing has sent
  a request or returned a response, validation had returned without an error.
\<close>

theorem no_request_without_validation:
  "(snd (post_init kwargs) = Inl e \<longrightarrow>
      new_events_endpoint kwargs = Inl e
      \<and> create_and_get server events_url kwargs log = (Inl e, log))
   \<and> (snd (create_and_get server events_url kwargs log) \<noteq> log \<longrightarrow>
      snd (post_init kwargs) = Inr ())
   \<and> (fst (create_and_get server events_url kwargs log) = Inr (self, r) \<longrightarrow>
      snd (post_init kwargs) = Inr ())"
  by (cases "snd (validate_request_params kwargs)")
    (simp_all add: create_and_get_def new_events_endpoint_outcome post_init_def)

theorem no_request_without_validation_witness:
  "snd (post_init (default_fields\<lparr>client_params := Some \<lparr>offset = 0, limit = 1\<rparr>,
          event_type := PStr ''randomstr''\<rparr>)) =
     Inl (ValueError
       [Text ''Invalid event_type value. Must be str value from EventType Enum.'',
        Debug [(''self.event_type'', Repr (PStr ''randomstr''))]])
   \<and> create_and_get (\<lambda>u ps. Inr \<lparr>json_result = Inr (JObj [(''asset_events'', JArr [])])\<rparr>)
       ''https://api.opensea.io/api/v1/events''
       (default_fields\<lparr>client_params := Some \<lparr>offset = 0, limit = 1\<rparr>,
          event_type := PStr ''randomstr''\<rparr>) [] =
     (Inl (ValueError
        [Text ''Invalid event_type value. Must be str value from EventType Enum.'',
         Debug [(''self.event_type'', Repr (PStr ''randomstr''))]]), [])"
  using no_request_without_validation [of
      "default_fields\<lparr>client_params := Some \<lparr>offset = 0, limit = 1\<rparr>,
         event_type := PStr ''randomstr''\<rparr>"
      "ValueError
        [Text ''Invalid event_type value. Must be str value from EventType Enum.'',
         Debug [(''self.event_type'', Repr (PStr ''randomstr''))]]"
      "\<lambda>u ps. Inr \<lparr>json_result = Inr (JObj [(''asset_events'', JArr [])])\<rparr>"
      "''https://api.opensea.io/api/v1/events''" "[]"]
  by (simp add: default_fields_def post_init_def auction_type_outcome event_type_outcome
      request_params_outcome isinstance_str_def py_in_def EventType_list_def)

end
